theory Spec2Isabelle
  imports Complex_Main
begin

section \<open>Decoded JSON values and the JavaScript operators the route applies to them\<close>

text \<open>
  A value as \<^verbatim>\<open>JSON.parse\<close> returns it. An object is the list of its own
  properties; a decoded object has no key twice, and a property is read with
  \<open>map_of\<close>. A string is the list of the bytes of its UTF-8 encoding. Numbers are
  the finite numbers a JSON text can denote. The value
  \<^verbatim>\<open>undefined\<close> is not a JSON value: a property that may be missing is a
  \<open>json option\<close>, with \<open>None\<close> for \<^verbatim>\<open>undefined\<close>.
\<close>

datatype json =
    JNull
  | JBool bool
  | JNumber rat
  | JString string
  | JArray "json list"
  | JObject "(string \<times> json) list"

text \<open>JavaScript truthiness: \<^verbatim>\<open>null\<close>, \<^verbatim>\<open>false\<close>, \<^verbatim>\<open>0\<close> and
  \<^verbatim>\<open>""\<close> are falsy, every array and object is truthy.\<close>

fun truthy :: "json \<Rightarrow> bool" where
  "truthy JNull = False"
| "truthy (JBool b) = b"
| "truthy (JNumber n) = (n \<noteq> 0)"
| "truthy (JString s) = (s \<noteq> [])"
| "truthy (JArray xs) = True"
| "truthy (JObject kvs) = True"

text \<open>\<^verbatim>\<open>(payload as any).error\<close> and \<^verbatim>\<open>(payload as any).message\<close>: the property of
  an object, \<^verbatim>\<open>undefined\<close> on a string, a number, a boolean or an array (none of
  them has a property of either name).\<close>

fun get_prop :: "json \<Rightarrow> string \<Rightarrow> json option" where
  "get_prop (JObject kvs) k = map_of kvs k"
| "get_prop v k = None"

text \<open>\<^verbatim>\<open>a && b\<close> and \<^verbatim>\<open>a || b\<close>, where \<^verbatim>\<open>undefined\<close> is falsy.\<close>

definition js_and :: "json \<Rightarrow> json option \<Rightarrow> json option" where
  "js_and a b = (if truthy a then b else Some a)"

definition js_or :: "json option \<Rightarrow> json option \<Rightarrow> json option" where
  "js_or a b = (case a of None \<Rightarrow> b | Some v \<Rightarrow> if truthy v then Some v else b)"

text \<open>An object literal as \<^verbatim>\<open>JSON.stringify\<close> writes it: a property whose value is
  \<^verbatim>\<open>undefined\<close> is left out.\<close>

definition json_object :: "(string \<times> json option) list \<Rightarrow> json" where
  "json_object fields = JObject (List.map_filter (\<lambda>(k, v). map_option (Pair k) v) fields)"

text \<open>The decimal digits of a status code, for the template literal
  \<^verbatim>\<open>`Upstream error ${res.status}`\<close>.\<close>

definition digit_char :: "nat \<Rightarrow> char" where
  "digit_char d = ''0123456789'' ! d"

fun show_nat :: "nat \<Rightarrow> string" where
  "show_nat n = (if n < 10 then [digit_char n] else show_nat (n div 10) @ [digit_char (n mod 10)])"

text \<open>\<^verbatim>\<open>s.includes(pat)\<close>: \<open>pat\<close> occurs in \<open>s\<close> as a contiguous substring.\<close>

fun str_includes :: "string \<Rightarrow> string \<Rightarrow> bool" where
  "str_includes [] pat = (pat = [])"
| "str_includes (c # cs) pat = (take (length pat) (c # cs) = pat \<or> str_includes cs pat)"

section \<open>The Zod schemas of \<^verbatim>\<open>lib/schemas\<close>\<close>

text \<open>
  A schema is a function from the path of the value and the value (\<open>None\<close> when the
  property is missing) to the issues found or the parsed output. An issue has its code,
  the path of the offending value and the message the schema gives for it (\<open>None\<close>:
  Zod's own wording). Every combinator below is the Zod combinator of the same name:
  a failed check reports one issue at the value's path, an object and an array parse
  every member and report all their issues, and an object keeps the declared keys only.
\<close>

datatype path_elem = Key string | Index nat

datatype issue_code = invalid_type string | invalid_value "string list" | too_small nat

datatype issue = Issue (issue_code: issue_code) (issue_path: "path_elem list")
  (issue_message: "string option")

type_synonym 'a zod = "path_elem list \<Rightarrow> json option \<Rightarrow> issue list + 'a"

fun issues_of :: "issue list + 'a \<Rightarrow> issue list" where
  "issues_of (Inl is) = is"
| "issues_of (Inr v) = []"

definition z_both :: "issue list + 'a \<Rightarrow> issue list + 'b \<Rightarrow> ('a \<Rightarrow> 'b \<Rightarrow> 'c) \<Rightarrow> issue list + 'c" where
  "z_both r1 r2 mk =
     (case r1 of
        Inr a \<Rightarrow> (case r2 of Inr b \<Rightarrow> Inr (mk a b) | Inl is2 \<Rightarrow> Inl is2)
      | Inl is1 \<Rightarrow> Inl (is1 @ issues_of r2))"

definition z_string :: "string zod" where
  "z_string p v =
     (case v of
        Some (JString s) \<Rightarrow> Inr s
      | _ \<Rightarrow> Inl [Issue (invalid_type ''string'') p None])"

definition z_string_min :: "nat \<Rightarrow> string \<Rightarrow> string zod" where
  "z_string_min n msg p v =
     (case z_string p v of
        Inl is \<Rightarrow> Inl is
      | Inr s \<Rightarrow> if length s < n then Inl [Issue (too_small n) p (Some msg)] else Inr s)"

definition z_boolean :: "bool zod" where
  "z_boolean p v =
     (case v of
        Some (JBool b) \<Rightarrow> Inr b
      | _ \<Rightarrow> Inl [Issue (invalid_type ''boolean'') p None])"

definition z_enum :: "string list \<Rightarrow> string zod" where
  "z_enum entries p v =
     (case v of
        Some (JString s) \<Rightarrow>
          if s \<in> set entries then Inr s else Inl [Issue (invalid_value entries) p None]
      | _ \<Rightarrow> Inl [Issue (invalid_value entries) p None])"

fun z_items :: "'a zod \<Rightarrow> path_elem list \<Rightarrow> nat \<Rightarrow> json list \<Rightarrow> issue list + 'a list" where
  "z_items elem p i [] = Inr []"
| "z_items elem p i (x # xs) =
     z_both (elem (p @ [Index i]) (Some x)) (z_items elem p (Suc i) xs) (#)"

definition z_array :: "'a zod \<Rightarrow> 'a list zod" where
  "z_array elem p v =
     (case v of
        Some (JArray xs) \<Rightarrow> z_items elem p 0 xs
      | _ \<Rightarrow> Inl [Issue (invalid_type ''array'') p None])"

definition z_optional :: "'a zod \<Rightarrow> 'a option zod" where
  "z_optional inner p v =
     (case v of
        None \<Rightarrow> Inr None
      | Some x \<Rightarrow> (case inner p v of Inl is \<Rightarrow> Inl is | Inr a \<Rightarrow> Inr (Some a)))"

text \<open>\<^verbatim>\<open>z.object({k1: s1, k2: s2})\<close>; \<open>mk\<close> builds the output from the two parsed
  members, so no other key of the input reaches it.\<close>

definition z_object2 :: "string \<Rightarrow> 'a zod \<Rightarrow> string \<Rightarrow> 'b zod \<Rightarrow> ('a \<Rightarrow> 'b \<Rightarrow> 'c) \<Rightarrow> 'c zod" where
  "z_object2 k1 s1 k2 s2 mk p v =
     (case v of
        Some (JObject kvs) \<Rightarrow>
          z_both (s1 (p @ [Key k1]) (map_of kvs k1)) (s2 (p @ [Key k2]) (map_of kvs k2)) mk
      | _ \<Rightarrow> Inl [Issue (invalid_type ''object'') p None])"

record ChatMessage =
  role :: string
  content :: string

record ChatRequest =
  message :: string
  history :: "ChatMessage list option"

record ChatResponse =
  reply :: string
  handled :: bool

definition chatMessageSchema :: "ChatMessage zod" where
  "chatMessageSchema =
     z_object2
       ''role'' (z_enum [''user'', ''assistant'', ''system''])
       ''content'' (z_string_min 1 ''Message cannot be empty'')
       (\<lambda>r c. \<lparr>role = r, content = c\<rparr>)"

definition chatRequestSchema :: "ChatRequest zod" where
  "chatRequestSchema =
     z_object2
       ''message'' z_string
       ''history'' (z_optional (z_array chatMessageSchema))
       (\<lambda>m h. \<lparr>message = m, history = h\<rparr>)"

definition chatResponseSchema :: "ChatResponse zod" where
  "chatResponseSchema =
     z_object2
       ''reply'' z_string
       ''handled'' z_boolean
       (\<lambda>r h. \<lparr>reply = r, handled = h\<rparr>)"

text \<open>\<^verbatim>\<open>schema.safeParse(data)\<close>: the issues or the parsed data, never an exception.\<close>

definition safeParse :: "'a zod \<Rightarrow> json \<Rightarrow> issue list + 'a" where
  "safeParse schema data = schema [] (Some data)"

text \<open>What \<^verbatim>\<open>JSON.stringify\<close> writes for the typed values.\<close>

definition ChatMessage_json :: "ChatMessage \<Rightarrow> json" where
  "ChatMessage_json m =
     json_object [(''role'', Some (JString (role m))), (''content'', Some (JString (content m)))]"

definition ChatRequest_json :: "ChatRequest \<Rightarrow> json" where
  "ChatRequest_json d =
     json_object
       [(''message'', Some (JString (message d))),
        (''history'', map_option (\<lambda>h. JArray (map ChatMessage_json h)) (history d))]"

definition ChatResponse_json :: "ChatResponse \<Rightarrow> json" where
  "ChatResponse_json v =
     json_object [(''reply'', Some (JString (reply v))), (''handled'', Some (JBool (handled v)))]"

section \<open>The relay route \<^verbatim>\<open>app/api/chat/route.ts\<close>\<close>

text \<open>
  What the platform gives the handler is a parameter of the model. A thrown value is an
  \<^verbatim>\<open>Error\<close> with its name and message. The request holds the result of
  \<^verbatim>\<open>req.json()\<close>: the decoded body, or the exception it rejects with. \<open>fetch\<close>
  resolves with the upstream response or rejects; of a response the handler reads the
  status, the \<^verbatim>\<open>content-type\<close> header, and the body through \<^verbatim>\<open>res.json()\<close>
  (\<open>None\<close> when it rejects) or \<^verbatim>\<open>res.text()\<close>. The signal is kept as the
  expression the handler builds; when it fires, and what \<open>fetch\<close> then rejects with,
  is the platform's. The texts Zod and the \<^verbatim>\<open>Response\<close> constructor produce are
  fields of \<open>runtime\<close>.
\<close>

record thrown =
  err_name :: string
  err_message :: string

datatype abort_signal =
    req_signal
  | AbortSignal_timeout nat
  | AbortSignal_any "abort_signal list"

record fetch_call =
  call_url :: string
  call_method :: string
  call_headers :: "(string \<times> string) list"
  call_body :: json
  call_cache :: string
  call_signal :: abort_signal

record upstream_response =
  res_status :: nat
  res_content_type :: "string option"
  res_json :: "json option"
  res_text :: "thrown + string"

datatype fetch_result = Resolved upstream_response | Rejected thrown

record NextRequest =
  req_json :: "thrown + json"

datatype response_body = JsonBody json | TextBody string

record response =
  status :: nat
  content_type :: string
  body :: response_body

record runtime =
  zod_issues_json :: "issue list \<Rightarrow> json"
  zod_error_message :: "issue list \<Rightarrow> string"
  status_range_message :: string
  null_body_message :: string

text \<open>\<^verbatim>\<open>schema.parse(data)\<close> throws a \<^verbatim>\<open>ZodError\<close> where \<^verbatim>\<open>safeParse\<close> returns
  the issues.\<close>

definition parse :: "runtime \<Rightarrow> 'a zod \<Rightarrow> json \<Rightarrow> thrown + 'a" where
  "parse rt schema data =
     (case safeParse schema data of
        Inl is \<Rightarrow> Inl \<lparr>err_name = ''ZodError'', err_message = zod_error_message rt is\<rparr>
      | Inr v \<Rightarrow> Inr v)"

text \<open>\<^verbatim>\<open>NextResponse.json(data, { status })\<close> builds a \<^verbatim>\<open>Response\<close> with a body.
  The constructor throws a \<^verbatim>\<open>RangeError\<close> for a status outside 200..599 and a
  \<^verbatim>\<open>TypeError\<close> for a status that allows no body (204, 205, 304; 101 is out of
  range already).\<close>

definition NextResponse_json :: "runtime \<Rightarrow> json \<Rightarrow> nat \<Rightarrow> thrown + response" where
  "NextResponse_json rt data st =
     (if st < 200 \<or> 599 < st
      then Inl \<lparr>err_name = ''RangeError'', err_message = status_range_message rt\<rparr>
      else if st = 204 \<or> st = 205 \<or> st = 304
      then Inl \<lparr>err_name = ''TypeError'', err_message = null_body_message rt\<rparr>
      else Inr \<lparr>status = st, content_type = ''application/json'', body = JsonBody data\<rparr>)"

text \<open>Lines 43-46: the first truthy one of \<^verbatim>\<open>payload.error\<close>,
  \<^verbatim>\<open>payload.message\<close> and the synthesized text.\<close>

definition upstream_message :: "json \<Rightarrow> nat \<Rightarrow> json option" where
  "upstream_message payload st =
     js_or
       (js_or (js_and payload (get_prop payload ''error''))
              (js_and payload (get_prop payload ''message'')))
       (Some (JString (''Upstream error '' @ show_nat st)))"

definition res_ok :: "upstream_response \<Rightarrow> bool" where
  "res_ok res = (200 \<le> res_status res \<and> res_status res \<le> 299)"

text \<open>Lines 36-60, after \<open>fetch\<close> has resolved. The payload is the decoded body
  (\<^verbatim>\<open>null\<close> when decoding fails) under a JSON content type and the text otherwise;
  the \<^verbatim>\<open>!res.ok\<close> branch is the same for both.\<close>

definition POST_respond :: "runtime \<Rightarrow> upstream_response \<Rightarrow> thrown + response" where
  "POST_respond rt res =
     (let contentType = (case res_content_type res of None \<Rightarrow> [] | Some s \<Rightarrow> s);
          isJson = str_includes contentType ''application/json''
      in if isJson
         then
           (let payload = (case res_json res of None \<Rightarrow> JNull | Some v \<Rightarrow> v)
            in if \<not> res_ok res
               then NextResponse_json rt
                      (json_object [(''error'', upstream_message payload (res_status res))])
                      (res_status res)
               else (case parse rt chatResponseSchema payload of
                       Inl err \<Rightarrow> Inl err
                     | Inr validated \<Rightarrow> NextResponse_json rt (ChatResponse_json validated) 200))
         else
           (case res_text res of
              Inl err \<Rightarrow> Inl err
            | Inr payload \<Rightarrow>
                if \<not> res_ok res
                then NextResponse_json rt
                       (json_object [(''error'', upstream_message (JString payload) (res_status res))])
                       (res_status res)
                else Inr \<lparr>status = 200,
                          content_type = (if contentType = [] then ''text/plain'' else contentType),
                          body = TextBody payload\<rparr>))"

text \<open>Lines 26-34: the one call to \<open>fetch\<close>, with the validated data as its body.\<close>

definition upstream_call :: "string \<Rightarrow> ChatRequest \<Rightarrow> fetch_call" where
  "upstream_call url parsed =
     \<lparr>call_url = url @ ''/chat'',
      call_method = ''POST'',
      call_headers = [(''Content-Type'', ''application/json'')],
      call_body = ChatRequest_json parsed,
      call_cache = ''no-store'',
      call_signal = AbortSignal_any [req_signal, AbortSignal_timeout 20000]\<rparr>"

text \<open>Lines 15-60: the body of the \<^verbatim>\<open>try\<close>, with the calls made to \<open>fetch\<close>.\<close>

definition POST_try ::
  "runtime \<Rightarrow> string \<Rightarrow> (fetch_call \<Rightarrow> fetch_result) \<Rightarrow> NextRequest
     \<Rightarrow> (thrown + response) \<times> fetch_call list" where
  "POST_try rt url fetch req =
     (case req_json req of
        Inl err \<Rightarrow> (Inl err, [])
      | Inr data \<Rightarrow>
          (case safeParse chatRequestSchema data of
             Inl is \<Rightarrow>
               (NextResponse_json rt
                  (json_object [(''error'', Some (JString ''Invalid request data'')),
                                (''issues'', Some (zod_issues_json rt is))])
                  400, [])
           | Inr parsed \<Rightarrow>
               (let call = upstream_call url parsed
                in (case fetch call of
                      Rejected err \<Rightarrow> (Inl err, [call])
                    | Resolved res \<Rightarrow> (POST_respond rt res, [call])))))"

text \<open>Lines 61-75: the \<^verbatim>\<open>catch\<close>.\<close>

definition POST_catch :: "runtime \<Rightarrow> thrown \<Rightarrow> thrown + response" where
  "POST_catch rt err =
     (if err_name err = ''AbortError'' \<or> err_name err = ''TimeoutError''
      then NextResponse_json rt
             (json_object [(''error'', Some (JString ''Upstream request timed out''))]) 504
      else NextResponse_json rt
             (json_object [(''error'', Some (JString ''[API_CHAT] Unexpected error'')),
                           (''detail'', Some (JString (err_message err)))]) 500)"

text \<open>The handler. \<open>API_URL\<close> is \<^verbatim>\<open>process.env.API_URL\<close>; \<^verbatim>\<open>!API_URL\<close> holds
  when it is unset or empty. The result is the response (or an exception that leaves the
  handler) and the upstream calls made.\<close>

definition POST ::
  "runtime \<Rightarrow> string option \<Rightarrow> (fetch_call \<Rightarrow> fetch_result) \<Rightarrow> NextRequest
     \<Rightarrow> (thrown + response) \<times> fetch_call list" where
  "POST rt API_URL fetch req =
     (let url = (case API_URL of None \<Rightarrow> [] | Some u \<Rightarrow> u)
      in if url = []
         then (NextResponse_json rt
                 (json_object [(''error'', Some (JString ''API_URL not found''))]) 500, [])
         else (case POST_try rt url fetch req of
                 (Inl err, calls) \<Rightarrow> (POST_catch rt err, calls)
               | (Inr resp, calls) \<Rightarrow> (Inr resp, calls)))"

section \<open>The conversation state of \<^verbatim>\<open>ChatPanel\<close>\<close>

text \<open>
  The four state variables of the component. \<open>sendMessage\<close> is split where it awaits
  the relay: \<open>sendMessage_start\<close> is lines 25-40 and gives the request body it posts,
  \<open>sendMessage_finish\<close> is lines 42-59. What comes back is \<open>Failed e\<close>, with \<open>e\<close>
  the text passed to \<^verbatim>\<open>setError\<close> (a response that is not ok, or an exception), or
  \<open>Replied r\<close>, with \<open>r\<close> the text \<^verbatim>\<open>String(data.reply ?? "")\<close>.
\<close>

record ChatPanel =
  messages :: "ChatMessage list"
  input :: string
  loading :: bool
  error :: "string option"

datatype exchange = Failed string | Replied string

definition systemMessage :: ChatMessage where
  "systemMessage = \<lparr>role = ''system'', content = ''You are a helpful assistant.''\<rparr>"

definition mount :: ChatPanel where
  "mount = \<lparr>messages = [systemMessage], input = [], loading = False, error = None\<rparr>"

text \<open>\<^verbatim>\<open>String.prototype.trim\<close> removes the white space and the line terminators of
  ECMAScript from both ends: TAB, LF, VT, FF, CR, SPACE, U+00A0, U+1680, U+2000 to U+200A,
  U+2028, U+2029, U+202F, U+205F, U+3000 and U+FEFF, here in their UTF-8 encodings.\<close>

definition white_space :: "string list" where
  "white_space =
     [[CHR 0x09], [CHR 0x0A], [CHR 0x0B], [CHR 0x0C], [CHR 0x0D], [CHR 0x20],
      [CHR 0xC2, CHR 0xA0],
      [CHR 0xE1, CHR 0x9A, CHR 0x80],
      [CHR 0xE2, CHR 0x80, CHR 0x80], [CHR 0xE2, CHR 0x80, CHR 0x81],
      [CHR 0xE2, CHR 0x80, CHR 0x82], [CHR 0xE2, CHR 0x80, CHR 0x83],
      [CHR 0xE2, CHR 0x80, CHR 0x84], [CHR 0xE2, CHR 0x80, CHR 0x85],
      [CHR 0xE2, CHR 0x80, CHR 0x86], [CHR 0xE2, CHR 0x80, CHR 0x87],
      [CHR 0xE2, CHR 0x80, CHR 0x88], [CHR 0xE2, CHR 0x80, CHR 0x89],
      [CHR 0xE2, CHR 0x80, CHR 0x8A],
      [CHR 0xE2, CHR 0x80, CHR 0xA8], [CHR 0xE2, CHR 0x80, CHR 0xA9],
      [CHR 0xE2, CHR 0x80, CHR 0xAF],
      [CHR 0xE2, CHR 0x81, CHR 0x9F],
      [CHR 0xE3, CHR 0x80, CHR 0x80],
      [CHR 0xEF, CHR 0xBB, CHR 0xBF]]"

fun strip_leading :: "string list \<Rightarrow> string \<Rightarrow> string" where
  "strip_leading ws [] = []"
| "strip_leading ws (c # cs) =
     (case find (\<lambda>w. w \<noteq> [] \<and> take (length w) (c # cs) = w) ws of
        None \<Rightarrow> c # cs
      | Some w \<Rightarrow> strip_leading ws (drop (length w - 1) cs))"

definition trimStart :: "string \<Rightarrow> string" where
  "trimStart s = strip_leading white_space s"

definition trimEnd :: "string \<Rightarrow> string" where
  "trimEnd s = rev (strip_leading (map rev white_space) (rev s))"

definition trim :: "string \<Rightarrow> string" where
  "trim s = trimEnd (trimStart s)"

definition sendMessage_start :: "ChatPanel \<Rightarrow> ChatPanel \<times> ChatRequest option" where
  "sendMessage_start st =
     (let trimmed = trim (input st)
      in if trimmed = [] \<or> loading st then (st, None)
         else
           (let userMsg = \<lparr>role = ''user'', content = trimmed\<rparr>;
                history = filter (\<lambda>m. role m \<noteq> ''system'') (messages st)
            in (st\<lparr>error := None, loading := True,
                    messages := messages st @ [userMsg], input := []\<rparr>,
                Some \<lparr>message = trimmed, history = Some history\<rparr>)))"

definition sendMessage_finish :: "exchange \<Rightarrow> ChatPanel \<Rightarrow> ChatPanel" where
  "sendMessage_finish out st =
     (case out of
        Failed e \<Rightarrow> st\<lparr>error := Some e, loading := False\<rparr>
      | Replied r \<Rightarrow>
          st\<lparr>messages := messages st @ [\<lparr>role = ''assistant'', content = r\<rparr>],
              loading := False\<rparr>)"

definition resetChat :: "ChatPanel \<Rightarrow> ChatPanel" where
  "resetChat st = st\<lparr>messages := [systemMessage], error := None, input := []\<rparr>"

text \<open>The events of the component: typing, a submit, the settling of the request in
  flight (there is one exactly while \<open>loading\<close> is set), and the reset button.\<close>

datatype ui_event = Typed string | Submitted | Settled exchange | Reset

fun ui_step :: "ChatPanel \<Rightarrow> ui_event \<Rightarrow> ChatPanel" where
  "ui_step st (Typed s) = st\<lparr>input := s\<rparr>"
| "ui_step st Submitted = fst (sendMessage_start st)"
| "ui_step st (Settled out) = (if loading st then sendMessage_finish out st else st)"
| "ui_step st Reset = resetChat st"

definition ui_run :: "ui_event list \<Rightarrow> ChatPanel" where
  "ui_run evs = foldl ui_step mount evs"

section \<open>A runtime and two upstreams for the examples\<close>

definition path_elem_json :: "path_elem \<Rightarrow> json" where
  "path_elem_json e = (case e of Key k \<Rightarrow> JString k | Index i \<Rightarrow> JNumber (of_nat i))"

definition issue_json :: "issue \<Rightarrow> json" where
  "issue_json i =
     json_object [(''path'', Some (JArray (map path_elem_json (issue_path i)))),
                  (''message'', map_option JString (issue_message i))]"

definition example_runtime :: runtime where
  "example_runtime =
     \<lparr>zod_issues_json = (\<lambda>is. JArray (map issue_json is)),
      zod_error_message = (\<lambda>is. ''ZodError''),
      status_range_message = ''status out of range'',
      null_body_message = ''status allows no body''\<rparr>"

definition upstream_rejects :: "thrown \<Rightarrow> fetch_call \<Rightarrow> fetch_result" where
  "upstream_rejects err call = Rejected err"

definition upstream_resolves :: "upstream_response \<Rightarrow> fetch_call \<Rightarrow> fetch_result" where
  "upstream_resolves res call = Resolved res"

section \<open>The schemas: what they accept, what they return and what they report\<close>

lemmas zod_defs =
  safeParse_def chatRequestSchema_def chatMessageSchema_def chatResponseSchema_def
  z_object2_def z_both_def z_string_def z_string_min_def z_enum_def z_boolean_def
  z_array_def z_optional_def

lemma issues_of_z_both: "issues_of (z_both r1 r2 mk) = issues_of r1 @ issues_of r2"
  by (cases r1; cases r2) (simp_all add: z_both_def)

lemma z_both_Inr_iff:
  "z_both r1 r2 mk = Inr c \<longleftrightarrow> (\<exists>a b. r1 = Inr a \<and> r2 = Inr b \<and> c = mk a b)"
  by (cases r1; cases r2) (auto simp: z_both_def)

lemma issue_gives_Inl: "i \<in> set (issues_of r) \<Longrightarrow> \<exists>is. r = Inl is \<and> i \<in> set is"
  by (cases r) simp_all

lemma z_items_issue:
  "n < length xs \<Longrightarrow> i \<in> set (issues_of (elem (p @ [Index (k + n)]) (Some (xs ! n))))
   \<Longrightarrow> i \<in> set (issues_of (z_items elem p k xs))"
proof (induction xs arbitrary: k n)
  case Nil
  then show ?case by simp
next
  case (Cons x xs)
  show ?case
  proof (cases n)
    case 0
    with Cons.prems show ?thesis by (simp add: issues_of_z_both)
  next
    case (Suc n')
    with Cons.prems have "n' < length xs"
      and "i \<in> set (issues_of (elem (p @ [Index (Suc k + n')]) (Some (xs ! n'))))"
      by simp_all
    then have "i \<in> set (issues_of (z_items elem p (Suc k) xs))" by (rule Cons.IH)
    then show ?thesis by (simp add: issues_of_z_both)
  qed
qed

lemma z_items_Inr:
  "z_items elem p k xs = Inr as \<Longrightarrow>
   length as = length xs \<and> (\<forall>n<length xs. elem (p @ [Index (k + n)]) (Some (xs ! n)) = Inr (as ! n))"
proof (induction xs arbitrary: k as)
  case Nil
  then show ?case by simp
next
  case (Cons x xs)
  from Cons.prems obtain a bs where a: "elem (p @ [Index k]) (Some x) = Inr a"
    and bs: "z_items elem p (Suc k) xs = Inr bs" and as: "as = a # bs"
    by (auto simp: z_both_Inr_iff)
  from Cons.IH [OF bs] have len: "length bs = length xs"
    and nth: "\<And>n. n < length xs \<Longrightarrow> elem (p @ [Index (Suc k + n)]) (Some (xs ! n)) = Inr (bs ! n)"
    by simp_all
  have "elem (p @ [Index (k + n)]) (Some ((x # xs) ! n)) = Inr (as ! n)" if "n < length (x # xs)" for n
  proof (cases n)
    case 0
    with a as show ?thesis by simp
  next
    case (Suc n')
    with that have "n' < length xs" by simp
    from nth [OF this] Suc as show ?thesis by simp
  qed
  with len as show ?case by simp
qed

lemma chatMessageSchema_accepts:
  "map_of fs ''role'' = Some (JString r) \<Longrightarrow> r \<in> {''user'', ''assistant'', ''system''} \<Longrightarrow>
   map_of fs ''content'' = Some (JString c) \<Longrightarrow> c \<noteq> [] \<Longrightarrow>
   chatMessageSchema q (Some (JObject fs)) = Inr \<lparr>role = r, content = c\<rparr>"
  by (auto simp: chatMessageSchema_def z_object2_def z_both_def z_enum_def z_string_min_def
      z_string_def)

lemma chatMessageSchema_Inr:
  assumes "chatMessageSchema q (Some e) = Inr m"
  shows "get_prop e ''role'' = Some (JString (role m))
       \<and> role m \<in> {''user'', ''assistant'', ''system''}
       \<and> get_prop e ''content'' = Some (JString (content m)) \<and> content m \<noteq> []"
proof -
  from assms obtain fs where e: "e = JObject fs"
    by (cases e) (simp_all add: chatMessageSchema_def z_object2_def)
  from assms e obtain r c
    where r: "z_enum [''user'', ''assistant'', ''system''] (q @ [Key ''role'']) (map_of fs ''role'') = Inr r"
      and c: "z_string_min 1 ''Message cannot be empty'' (q @ [Key ''content'']) (map_of fs ''content'') = Inr c"
      and m: "m = \<lparr>role = r, content = c\<rparr>"
    by (auto simp: chatMessageSchema_def z_object2_def z_both_Inr_iff)
  from r have "map_of fs ''role'' = Some (JString r) \<and> r \<in> {''user'', ''assistant'', ''system''}"
    by (simp add: z_enum_def split: option.splits json.splits if_splits)
  moreover from c have "map_of fs ''content'' = Some (JString c) \<and> c \<noteq> []"
    by (simp add: z_string_min_def z_string_def split: option.splits json.splits if_splits)
  ultimately show ?thesis using e m by simp
qed

lemma chatRequestSchema_issues:
  "issues_of (safeParse chatRequestSchema (JObject kvs)) =
     issues_of (z_string [Key ''message''] (map_of kvs ''message''))
     @ issues_of (z_optional (z_array chatMessageSchema) [Key ''history''] (map_of kvs ''history''))"
  by (simp add: safeParse_def chatRequestSchema_def z_object2_def issues_of_z_both)

lemma chatMessageSchema_issues:
  "issues_of (chatMessageSchema q (Some (JObject fs))) =
     issues_of (z_enum [''user'', ''assistant'', ''system''] (q @ [Key ''role'']) (map_of fs ''role''))
     @ issues_of (z_string_min 1 ''Message cannot be empty'' (q @ [Key ''content'']) (map_of fs ''content''))"
  by (simp add: chatMessageSchema_def z_object2_def issues_of_z_both)

lemma history_issues:
  "issues_of (z_optional (z_array chatMessageSchema) q (Some (JArray es)))
     = issues_of (z_items chatMessageSchema q 0 es)"
  by (cases "z_items chatMessageSchema q 0 es") (simp_all add: z_optional_def z_array_def)

lemma chatRequestSchema_Inr:
  assumes "safeParse chatRequestSchema data = Inr d"
  shows "\<exists>kvs. data = JObject kvs \<and> map_of kvs ''message'' = Some (JString (message d))
           \<and> z_optional (z_array chatMessageSchema) [Key ''history''] (map_of kvs ''history'')
               = Inr (history d)"
proof -
  from assms obtain kvs where e: "data = JObject kvs"
    by (cases data) (simp_all add: safeParse_def chatRequestSchema_def z_object2_def)
  from assms e obtain m h
    where m: "z_string [Key ''message''] (map_of kvs ''message'') = Inr m"
      and h: "z_optional (z_array chatMessageSchema) [Key ''history''] (map_of kvs ''history'') = Inr h"
      and d: "d = \<lparr>message = m, history = h\<rparr>"
    by (auto simp: safeParse_def chatRequestSchema_def z_object2_def z_both_Inr_iff)
  from m have "map_of kvs ''message'' = Some (JString m)"
    by (simp add: z_string_def split: option.splits json.splits)
  with e h d show ?thesis by simp
qed


lemma chatResponseSchema_Inr:
  assumes "safeParse chatResponseSchema v = Inr x"
  shows "\<exists>kvs. v = JObject kvs \<and> map_of kvs ''reply'' = Some (JString (reply x))
           \<and> map_of kvs ''handled'' = Some (JBool (handled x))"
proof -
  from assms obtain kvs where e: "v = JObject kvs"
    by (cases v) (simp_all add: safeParse_def chatResponseSchema_def z_object2_def)
  from assms e obtain r h
    where r: "z_string [Key ''reply''] (map_of kvs ''reply'') = Inr r"
      and h: "z_boolean [Key ''handled''] (map_of kvs ''handled'') = Inr h"
      and x: "x = \<lparr>reply = r, handled = h\<rparr>"
    by (auto simp: safeParse_def chatResponseSchema_def z_object2_def z_both_Inr_iff)
  from r have "map_of kvs ''reply'' = Some (JString r)"
    by (simp add: z_string_def split: option.splits json.splits)
  moreover from h have "map_of kvs ''handled'' = Some (JBool h)"
    by (simp add: z_boolean_def split: option.splits json.splits)
  ultimately show ?thesis using e x by simp
qed

subsection \<open>Acceptance and the reported issues\<close>

lemma z_items_accepts:
  "(\<And>x q. x \<in> set xs \<Longrightarrow> \<exists>a. elem q (Some x) = Inr a) \<Longrightarrow> \<exists>as. z_items elem p k xs = Inr as"
proof (induction xs arbitrary: k)
  case Nil
  then show ?case by simp
next
  case (Cons x xs)
  from Cons.prems [of x] obtain a where a: "elem (p @ [Index k]) (Some x) = Inr a" by auto
  have "\<exists>as. z_items elem p (Suc k) xs = Inr as"
    by (rule Cons.IH) (simp add: Cons.prems)
  then obtain bs where "z_items elem p (Suc k) xs = Inr bs" ..
  with a show ?case by (simp add: z_both_def)
qed

lemma z_enum_rejects:
  "(\<And>r. v = Some (JString r) \<Longrightarrow> r \<notin> set entries) \<Longrightarrow>
   z_enum entries p v = Inl [Issue (invalid_value entries) p None]"
  by (simp add: z_enum_def split: option.split json.split)

lemma chatRequestSchema_accepts:
  assumes "map_of kvs ''message'' = Some (JString m)"
    and "map_of kvs ''history'' = None \<or>
         (\<exists>es. map_of kvs ''history'' = Some (JArray es) \<and>
            (\<forall>e\<in>set es. \<exists>fs r c. e = JObject fs \<and> map_of fs ''role'' = Some (JString r)
               \<and> r \<in> {''user'', ''assistant'', ''system''}
               \<and> map_of fs ''content'' = Some (JString c) \<and> c \<noteq> []))"
  shows "\<exists>d. safeParse chatRequestSchema (JObject kvs) = Inr d \<and> message d = m"
proof -
  have "\<exists>h. z_optional (z_array chatMessageSchema) [Key ''history''] (map_of kvs ''history'') = Inr h"
    using assms(2)
  proof
    assume "map_of kvs ''history'' = None"
    then show ?thesis by (simp add: z_optional_def)
  next
    assume "\<exists>es. map_of kvs ''history'' = Some (JArray es) \<and>
            (\<forall>e\<in>set es. \<exists>fs r c. e = JObject fs \<and> map_of fs ''role'' = Some (JString r)
               \<and> r \<in> {''user'', ''assistant'', ''system''}
               \<and> map_of fs ''content'' = Some (JString c) \<and> c \<noteq> [])"
    then obtain es where es: "map_of kvs ''history'' = Some (JArray es)"
      and wf: "\<And>e. e \<in> set es \<Longrightarrow> \<exists>fs r c. e = JObject fs \<and> map_of fs ''role'' = Some (JString r)
               \<and> r \<in> {''user'', ''assistant'', ''system''}
               \<and> map_of fs ''content'' = Some (JString c) \<and> c \<noteq> []"
      by blast
    have "\<exists>as. z_items chatMessageSchema [Key ''history''] 0 es = Inr as"
    proof (rule z_items_accepts)
      fix x q assume "x \<in> set es"
      from wf [OF this] obtain fs r c where x: "x = JObject fs"
        and f: "map_of fs ''role'' = Some (JString r)"
          "r \<in> {''user'', ''assistant'', ''system''}"
          "map_of fs ''content'' = Some (JString c)" "c \<noteq> []"
        by blast
      from f have "chatMessageSchema q (Some (JObject fs)) = Inr \<lparr>role = r, content = c\<rparr>"
        by (rule chatMessageSchema_accepts)
      with x show "\<exists>a. chatMessageSchema q (Some x) = Inr a" by simp
    qed
    then obtain as where "z_items chatMessageSchema [Key ''history''] 0 es = Inr as" ..
    with es show ?thesis by (simp add: z_optional_def z_array_def)
  qed
  then obtain h where
    "z_optional (z_array chatMessageSchema) [Key ''history''] (map_of kvs ''history'') = Inr h" ..
  with assms(1) have "safeParse chatRequestSchema (JObject kvs) = Inr \<lparr>message = m, history = h\<rparr>"
    by (simp add: safeParse_def chatRequestSchema_def z_object2_def z_both_def z_string_def)
  then show ?thesis by simp
qed

lemma missing_message_issue:
  assumes "map_of kvs ''message'' = None"
  shows "Issue (invalid_type ''string'') [Key ''message''] None
           \<in> set (issues_of (safeParse chatRequestSchema (JObject kvs)))"
  using assms by (simp add: chatRequestSchema_issues z_string_def)

lemma history_entry_issue:
  assumes "map_of kvs ''history'' = Some (JArray es)" and "n < length es"
    and "i \<in> set (issues_of (chatMessageSchema [Key ''history'', Index n] (Some (es ! n))))"
  shows "i \<in> set (issues_of (safeParse chatRequestSchema (JObject kvs)))"
proof -
  from assms(3) have "i \<in> set (issues_of (chatMessageSchema ([Key ''history''] @ [Index (0 + n)]) (Some (es ! n))))"
    by simp
  with assms(2) have "i \<in> set (issues_of (z_items chatMessageSchema [Key ''history''] 0 es))"
    by (rule z_items_issue)
  with assms(1) show ?thesis
    by (simp add: chatRequestSchema_issues history_issues)
qed

lemma invalid_role_issue:
  assumes "map_of kvs ''history'' = Some (JArray es)" and "n < length es" and "es ! n = JObject fs"
    and "\<forall>r. map_of fs ''role'' = Some (JString r) \<longrightarrow> r \<notin> {''user'', ''assistant'', ''system''}"
  shows "Issue (invalid_value [''user'', ''assistant'', ''system'']) [Key ''history'', Index n, Key ''role''] None
           \<in> set (issues_of (safeParse chatRequestSchema (JObject kvs)))"
proof -
  have "z_enum [''user'', ''assistant'', ''system''] ([Key ''history'', Index n] @ [Key ''role'']) (map_of fs ''role'')
          = Inl [Issue (invalid_value [''user'', ''assistant'', ''system'']) ([Key ''history'', Index n] @ [Key ''role'']) None]"
  proof (rule z_enum_rejects)
    fix r assume "map_of fs ''role'' = Some (JString r)"
    with assms(4) have "r \<notin> {''user'', ''assistant'', ''system''}" by blast
    then show "r \<notin> set [''user'', ''assistant'', ''system'']" by simp
  qed
  then have "Issue (invalid_value [''user'', ''assistant'', ''system'']) [Key ''history'', Index n, Key ''role''] None
      \<in> set (issues_of (chatMessageSchema [Key ''history'', Index n] (Some (es ! n))))"
    by (simp add: assms(3) chatMessageSchema_issues)
  with assms(1,2) show ?thesis by (rule history_entry_issue)
qed

lemma empty_content_issue:
  assumes "map_of kvs ''history'' = Some (JArray es)" and "n < length es" and "es ! n = JObject fs"
    and "map_of fs ''content'' = Some (JString [])"
  shows "Issue (too_small 1) [Key ''history'', Index n, Key ''content''] (Some ''Message cannot be empty'')
           \<in> set (issues_of (safeParse chatRequestSchema (JObject kvs)))"
proof -
  have "Issue (too_small 1) [Key ''history'', Index n, Key ''content''] (Some ''Message cannot be empty'')
      \<in> set (issues_of (chatMessageSchema [Key ''history'', Index n] (Some (es ! n))))"
    by (simp add: assms(3,4) chatMessageSchema_issues z_string_min_def z_string_def)
  with assms(1,2) show ?thesis by (rule history_entry_issue)
qed

subsection \<open>Serialised data and its round trip\<close>

lemma ChatRequest_json_unfold:
  "ChatRequest_json d =
     JObject ((''message'', JString (message d)) #
              (case history d of None \<Rightarrow> []
               | Some h \<Rightarrow> [(''history'', JArray (map ChatMessage_json h))]))"
  by (cases "history d") (simp_all add: ChatRequest_json_def json_object_def)

lemma ChatMessage_json_unfold:
  "ChatMessage_json m = JObject [(''role'', JString (role m)), (''content'', JString (content m))]"
  by (simp add: ChatMessage_json_def json_object_def)

lemma get_prop_ChatMessage_json:
  "get_prop (ChatMessage_json m) ''role'' = Some (JString (role m))"
  "get_prop (ChatMessage_json m) ''content'' = Some (JString (content m))"
  by (simp_all add: ChatMessage_json_unfold)

lemma get_prop_ChatRequest_json:
  "get_prop (ChatRequest_json d) ''message'' = Some (JString (message d))"
  "get_prop (ChatRequest_json d) ''history'' = map_option (\<lambda>h. JArray (map ChatMessage_json h)) (history d)"
  by (cases "history d"; simp add: ChatRequest_json_unfold)+

lemma chatMessageSchema_round_trip:
  assumes "role m \<in> {''user'', ''assistant'', ''system''}" and "content m \<noteq> []"
  shows "chatMessageSchema q (Some (ChatMessage_json m)) = Inr m"
proof -
  have "chatMessageSchema q (Some (JObject [(''role'', JString (role m)), (''content'', JString (content m))]))
          = Inr \<lparr>role = role m, content = content m\<rparr>"
    by (rule chatMessageSchema_accepts) (use assms in simp_all)
  then show ?thesis by (simp add: ChatMessage_json_unfold)
qed

lemma z_items_round_trip:
  "(\<And>m. m \<in> set h \<Longrightarrow> role m \<in> {''user'', ''assistant'', ''system''} \<and> content m \<noteq> []) \<Longrightarrow>
   z_items chatMessageSchema p k (map ChatMessage_json h) = Inr h"
proof (induction h arbitrary: k)
  case Nil
  then show ?case by simp
next
  case (Cons m h)
  have "m \<in> set (m # h)" by simp
  then have "role m \<in> {''user'', ''assistant'', ''system''} \<and> content m \<noteq> []"
    by (rule Cons.prems)
  then have "chatMessageSchema (p @ [Index k]) (Some (ChatMessage_json m)) = Inr m"
    by (intro chatMessageSchema_round_trip) simp_all
  moreover have "z_items chatMessageSchema p (Suc k) (map ChatMessage_json h) = Inr h"
  proof (rule Cons.IH)
    fix m' assume "m' \<in> set h"
    then have "m' \<in> set (m # h)" by simp
    then show "role m' \<in> {''user'', ''assistant'', ''system''} \<and> content m' \<noteq> []"
      by (rule Cons.prems)
  qed
  ultimately show ?case by (simp add: z_both_def)
qed

lemma chatRequestSchema_round_trip:
  assumes "\<And>h m. history r = Some h \<Longrightarrow> m \<in> set h \<Longrightarrow>
             role m \<in> {''user'', ''assistant'', ''system''} \<and> content m \<noteq> []"
  shows "safeParse chatRequestSchema (ChatRequest_json r) = Inr r"
proof (cases "history r")
  case None
  then have "safeParse chatRequestSchema (ChatRequest_json r) = Inr \<lparr>message = message r, history = None\<rparr>"
    by (simp add: ChatRequest_json_unfold zod_defs)
  with None show ?thesis by simp
next
  case (Some h)
  have "z_items chatMessageSchema [Key ''history''] 0 (map ChatMessage_json h) = Inr h"
    by (rule z_items_round_trip) (rule assms [OF Some])
  with Some have "safeParse chatRequestSchema (ChatRequest_json r)
                    = Inr \<lparr>message = message r, history = Some h\<rparr>"
    by (simp add: ChatRequest_json_unfold safeParse_def chatRequestSchema_def z_object2_def
        z_both_def z_string_def z_optional_def z_array_def)
  with Some show ?thesis by simp
qed

lemma history_Inr:
  assumes "z_optional (z_array chatMessageSchema) p v = Inr ho"
  shows "(v = None \<and> ho = None)
       \<or> (\<exists>es h. v = Some (JArray es) \<and> ho = Some h \<and> z_items chatMessageSchema p 0 es = Inr h)"
proof (cases v)
  case None
  with assms show ?thesis by (simp add: z_optional_def)
next
  case (Some x)
  with assms obtain h where h: "z_array chatMessageSchema p (Some x) = Inr h" and ho: "ho = Some h"
    by (cases "z_array chatMessageSchema p (Some x)") (simp_all add: z_optional_def)
  from h obtain es where "x = JArray es" "z_items chatMessageSchema p 0 es = Inr h"
    by (cases x) (simp_all add: z_array_def)
  with Some ho show ?thesis by simp
qed

lemma parsed_request:
  assumes "safeParse chatRequestSchema data = Inr d"
  shows "get_prop data ''message'' = Some (JString (message d))"
    and "get_prop data ''history'' = None \<Longrightarrow> history d = None"
    and "get_prop data ''history'' = Some (JArray es) \<Longrightarrow>
           \<exists>h. history d = Some h \<and> length h = length es
             \<and> (\<forall>n<length es. get_prop (es ! n) ''role'' = Some (JString (role (h ! n)))
                   \<and> get_prop (es ! n) ''content'' = Some (JString (content (h ! n))))"
    and "history d = Some h \<Longrightarrow> m \<in> set h \<Longrightarrow>
           role m \<in> {''user'', ''assistant'', ''system''} \<and> content m \<noteq> []"
proof -
  from chatRequestSchema_Inr [OF assms] obtain kvs where k: "data = JObject kvs"
    and msg: "map_of kvs ''message'' = Some (JString (message d))"
    and hist: "z_optional (z_array chatMessageSchema) [Key ''history''] (map_of kvs ''history'')
               = Inr (history d)"
    by blast
  from k msg show "get_prop data ''message'' = Some (JString (message d))" by simp
  note cases = history_Inr [OF hist]
  show "history d = None" if "get_prop data ''history'' = None"
    using cases that k by auto
  have entries: "length h' = length es' \<and> (\<forall>n<length es'. get_prop (es' ! n) ''role'' = Some (JString (role (h' ! n)))
                   \<and> get_prop (es' ! n) ''content'' = Some (JString (content (h' ! n)))
                   \<and> role (h' ! n) \<in> {''user'', ''assistant'', ''system''} \<and> content (h' ! n) \<noteq> [])"
    if "z_items chatMessageSchema [Key ''history''] 0 es' = Inr h'" for es' h'
  proof -
    from z_items_Inr [OF that] have len: "length h' = length es'"
      and nth: "\<And>n. n < length es' \<Longrightarrow>
                  chatMessageSchema ([Key ''history''] @ [Index (0 + n)]) (Some (es' ! n)) = Inr (h' ! n)"
      by simp_all
    show ?thesis using len chatMessageSchema_Inr [OF nth] by simp
  qed
  show "\<exists>h. history d = Some h \<and> length h = length es
             \<and> (\<forall>n<length es. get_prop (es ! n) ''role'' = Some (JString (role (h ! n)))
                   \<and> get_prop (es ! n) ''content'' = Some (JString (content (h ! n))))"
    if "get_prop data ''history'' = Some (JArray es)"
  proof -
    from cases that k obtain h' where "history d = Some h'"
      "z_items chatMessageSchema [Key ''history''] 0 es = Inr h'"
      by auto
    with entries [of es h'] show ?thesis by simp
  qed
  show "role m \<in> {''user'', ''assistant'', ''system''} \<and> content m \<noteq> []"
    if "history d = Some h" "m \<in> set h"
  proof -
    from cases that(1) obtain es' where "z_items chatMessageSchema [Key ''history''] 0 es' = Inr h"
      by auto
    from entries [OF this] have len: "length h = length es'"
      and ok: "\<And>n. n < length es' \<Longrightarrow>
                 role (h ! n) \<in> {''user'', ''assistant'', ''system''} \<and> content (h ! n) \<noteq> []"
      by simp_all
    from that(2) obtain n where "n < length h" "h ! n = m" by (auto simp: in_set_conv_nth)
    with len ok [of n] show ?thesis by simp
  qed
qed

section \<open>The relay: evaluation lemmas\<close>

lemma NextResponse_json_ok:
  "200 \<le> st \<Longrightarrow> st \<le> 599 \<Longrightarrow> st \<noteq> 204 \<Longrightarrow> st \<noteq> 205 \<Longrightarrow> st \<noteq> 304 \<Longrightarrow>
   NextResponse_json rt data st =
     Inr \<lparr>status = st, content_type = ''application/json'', body = JsonBody data\<rparr>"
  by (simp add: NextResponse_json_def)

lemma POST_unconfigured:
  "API_URL = None \<or> API_URL = Some [] \<Longrightarrow>
   POST rt API_URL fetch req =
     (Inr \<lparr>status = 500, content_type = ''application/json'',
           body = JsonBody (JObject [(''error'', JString ''API_URL not found'')])\<rparr>, [])"
  by (auto simp: POST_def NextResponse_json_ok json_object_def)

lemma POST_configured:
  "url \<noteq> [] \<Longrightarrow>
   POST rt (Some url) fetch req =
     (case POST_try rt url fetch req of
        (Inl err, calls) \<Rightarrow> (POST_catch rt err, calls)
      | (Inr resp, calls) \<Rightarrow> (Inr resp, calls))"
  by (simp add: POST_def)

lemma POST_calls:
  "url \<noteq> [] \<Longrightarrow> snd (POST rt (Some url) fetch req) = snd (POST_try rt url fetch req)"
  by (cases "POST_try rt url fetch req") (simp add: POST_configured split: sum.split)

lemma POST_returns:
  "url \<noteq> [] \<Longrightarrow> POST_try rt url fetch req = (Inr resp, calls) \<Longrightarrow>
   POST rt (Some url) fetch req = (Inr resp, calls)"
  by (simp add: POST_configured)

lemma POST_catches:
  "url \<noteq> [] \<Longrightarrow> POST_try rt url fetch req = (Inl err, calls) \<Longrightarrow>
   POST rt (Some url) fetch req = (POST_catch rt err, calls)"
  by (simp add: POST_configured)

lemma POST_try_bad_body:
  "req_json req = Inl err \<Longrightarrow> POST_try rt url fetch req = (Inl err, [])"
  by (simp add: POST_try_def)

lemma POST_try_invalid:
  "req_json req = Inr data \<Longrightarrow> safeParse chatRequestSchema data = Inl is \<Longrightarrow>
   POST_try rt url fetch req =
     (Inr \<lparr>status = 400, content_type = ''application/json'',
           body = JsonBody (JObject [(''error'', JString ''Invalid request data''),
                                     (''issues'', zod_issues_json rt is)])\<rparr>, [])"
  by (simp add: POST_try_def NextResponse_json_ok json_object_def)

lemma POST_try_rejected:
  "req_json req = Inr data \<Longrightarrow> safeParse chatRequestSchema data = Inr parsed \<Longrightarrow>
   fetch (upstream_call url parsed) = Rejected err \<Longrightarrow>
   POST_try rt url fetch req = (Inl err, [upstream_call url parsed])"
  by (simp add: POST_try_def)

lemma POST_try_resolved:
  "req_json req = Inr data \<Longrightarrow> safeParse chatRequestSchema data = Inr parsed \<Longrightarrow>
   fetch (upstream_call url parsed) = Resolved res \<Longrightarrow>
   POST_try rt url fetch req = (POST_respond rt res, [upstream_call url parsed])"
  by (simp add: POST_try_def)

lemma POST_catch_timeout:
  "err_name err = ''AbortError'' \<or> err_name err = ''TimeoutError'' \<Longrightarrow>
   POST_catch rt err =
     Inr \<lparr>status = 504, content_type = ''application/json'',
          body = JsonBody (JObject [(''error'', JString ''Upstream request timed out'')])\<rparr>"
  by (auto simp: POST_catch_def NextResponse_json_ok json_object_def)

lemma POST_catch_unexpected:
  "err_name err \<noteq> ''AbortError'' \<Longrightarrow> err_name err \<noteq> ''TimeoutError'' \<Longrightarrow>
   POST_catch rt err =
     Inr \<lparr>status = 500, content_type = ''application/json'',
          body = JsonBody (JObject [(''error'', JString ''[API_CHAT] Unexpected error''),
                                    (''detail'', JString (err_message err))])\<rparr>"
  by (simp add: POST_catch_def NextResponse_json_ok json_object_def)

lemma POST_resolved:
  assumes "url \<noteq> []" and "req_json req = Inr data"
    and "safeParse chatRequestSchema data = Inr parsed"
    and "fetch (upstream_call url parsed) = Resolved res"
  shows "POST rt (Some url) fetch req =
           (case POST_respond rt res of Inl err \<Rightarrow> POST_catch rt err | Inr resp \<Rightarrow> Inr resp,
            [upstream_call url parsed])"
  using assms by (simp add: POST_configured POST_try_resolved split: sum.split)

lemma POST_rejected:
  assumes "url \<noteq> []" and "req_json req = Inr data"
    and "safeParse chatRequestSchema data = Inr parsed"
    and "fetch (upstream_call url parsed) = Rejected err"
  shows "POST rt (Some url) fetch req = (POST_catch rt err, [upstream_call url parsed])"
  using assms by (simp add: POST_configured POST_try_rejected)

lemma hi_request_parsed:
  "safeParse chatRequestSchema (JObject [(''message'', JString ''hi'')])
     = Inr \<lparr>message = ''hi'', history = None\<rparr>"
  by (simp add: zod_defs)

subsection \<open>The error text of an upstream failure\<close>

lemma get_prop_falsy: "\<not> truthy payload \<Longrightarrow> get_prop payload k = None"
  by (cases payload) simp_all

lemma js_and_prop_truthy:
  "get_prop payload k = Some v \<Longrightarrow> js_and payload (get_prop payload k) = Some v"
  using get_prop_falsy [of payload k] by (cases "truthy payload") (simp_all add: js_and_def)

lemma js_and_prop_falsy:
  assumes "js_and payload (get_prop payload k) = Some v"
    and "\<forall>e. get_prop payload k = Some e \<longrightarrow> \<not> truthy e"
  shows "\<not> truthy v"
proof (cases "truthy payload")
  case True
  with assms show ?thesis by (simp add: js_and_def)
next
  case False
  with assms(1) show ?thesis by (simp add: js_and_def)
qed

lemma js_or_truthy: "truthy v \<Longrightarrow> js_or (Some v) b = Some v"
  by (simp add: js_or_def)

lemma js_or_falsy: "(\<And>v. a = Some v \<Longrightarrow> \<not> truthy v) \<Longrightarrow> js_or a b = b"
  by (cases a) (simp_all add: js_or_def)

lemma js_or_prop_falsy:
  assumes "\<forall>e. get_prop payload k = Some e \<longrightarrow> \<not> truthy e"
  shows "js_or (js_and payload (get_prop payload k)) b = b"
proof (rule js_or_falsy)
  fix v assume "js_and payload (get_prop payload k) = Some v"
  then show "\<not> truthy v" using assms by (rule js_and_prop_falsy)
qed

lemma upstream_message_error:
  assumes "get_prop payload ''error'' = Some v" and "truthy v"
  shows "upstream_message payload st = Some v"
proof -
  have "js_and payload (get_prop payload ''error'') = Some v"
    using assms(1) by (rule js_and_prop_truthy)
  then show ?thesis
    unfolding upstream_message_def using assms(2) by (simp add: js_or_truthy)
qed

lemma upstream_message_message:
  assumes "\<forall>e. get_prop payload ''error'' = Some e \<longrightarrow> \<not> truthy e"
    and "get_prop payload ''message'' = Some v" and "truthy v"
  shows "upstream_message payload st = Some v"
proof -
  have "js_and payload (get_prop payload ''message'') = Some v"
    using assms(2) by (rule js_and_prop_truthy)
  then show ?thesis
    unfolding upstream_message_def js_or_prop_falsy [OF assms(1)]
    using assms(3) by (simp add: js_or_truthy)
qed

lemma upstream_message_synthesized:
  assumes "\<forall>e. get_prop payload ''error'' = Some e \<longrightarrow> \<not> truthy e"
    and "\<forall>v. get_prop payload ''message'' = Some v \<longrightarrow> \<not> truthy v"
  shows "upstream_message payload st = Some (JString (''Upstream error '' @ show_nat st))"
  unfolding upstream_message_def js_or_prop_falsy [OF assms(1)] js_or_prop_falsy [OF assms(2)]
  by (rule refl)

lemma upstream_message_defined: "\<exists>m. upstream_message payload st = Some m"
proof (cases "\<exists>v. get_prop payload ''error'' = Some v \<and> truthy v")
  case True
  then obtain v where "get_prop payload ''error'' = Some v" "truthy v" by blast
  then have "upstream_message payload st = Some v" by (rule upstream_message_error)
  then show ?thesis ..
next
  case False
  then have noerr: "\<forall>e. get_prop payload ''error'' = Some e \<longrightarrow> \<not> truthy e" by blast
  show ?thesis
  proof (cases "\<exists>v. get_prop payload ''message'' = Some v \<and> truthy v")
    case True
    then obtain v where "get_prop payload ''message'' = Some v" "truthy v" by blast
    with noerr have "upstream_message payload st = Some v" by (rule upstream_message_message)
    then show ?thesis ..
  next
    case False
    then have "\<forall>v. get_prop payload ''message'' = Some v \<longrightarrow> \<not> truthy v" by blast
    with noerr have "upstream_message payload st = Some (JString (''Upstream error '' @ show_nat st))"
      by (rule upstream_message_synthesized)
    then show ?thesis ..
  qed
qed

lemma POST_respond_not_ok:
  assumes "\<not> res_ok res"
    and "200 \<le> res_status res" and "res_status res \<le> 599" and "res_status res \<noteq> 304"
    and "isJson = str_includes (case res_content_type res of None \<Rightarrow> [] | Some s \<Rightarrow> s) ''application/json''"
    and "isJson \<or> res_text res = Inr txt"
    and "payload = (if isJson then (case res_json res of None \<Rightarrow> JNull | Some v \<Rightarrow> v) else JString txt)"
    and "upstream_message payload (res_status res) = Some m"
  shows "POST_respond rt res =
           Inr \<lparr>status = res_status res, content_type = ''application/json'',
                body = JsonBody (JObject [(''error'', m)])\<rparr>"
proof -
  have st: "res_status res \<noteq> 204" "res_status res \<noteq> 205"
    using assms(1,2,3) by (simp_all add: res_ok_def)
  have r: "NextResponse_json rt (json_object [(''error'', Some m)]) (res_status res)
             = Inr \<lparr>status = res_status res, content_type = ''application/json'',
                    body = JsonBody (JObject [(''error'', m)])\<rparr>"
    using assms(2,3,4) st by (simp add: NextResponse_json_ok json_object_def)
  show ?thesis
  proof (cases isJson)
    case True
    with assms(1,5,7,8) r show ?thesis
      by (simp add: POST_respond_def Let_def)
  next
    case False
    with assms(6) have "res_text res = Inr txt" by simp
    with False assms(1,5,7,8) r show ?thesis
      by (simp add: POST_respond_def Let_def)
  qed
qed

subsection \<open>A 2xx JSON answer, and the calls made\<close>

lemma POST_respond_valid:
  assumes "res_ok res"
    and "str_includes (case res_content_type res of None \<Rightarrow> [] | Some s \<Rightarrow> s) ''application/json''"
    and "safeParse chatResponseSchema (case res_json res of None \<Rightarrow> JNull | Some v \<Rightarrow> v) = Inr x"
  shows "POST_respond rt res =
           Inr \<lparr>status = 200, content_type = ''application/json'',
                body = JsonBody (JObject [(''reply'', JString (reply x)),
                                          (''handled'', JBool (handled x))])\<rparr>"
  using assms
  by (simp add: POST_respond_def Let_def parse_def NextResponse_json_ok ChatResponse_json_def
      json_object_def)

lemma POST_respond_malformed:
  assumes "res_ok res"
    and "str_includes (case res_content_type res of None \<Rightarrow> [] | Some s \<Rightarrow> s) ''application/json''"
    and "safeParse chatResponseSchema (case res_json res of None \<Rightarrow> JNull | Some v \<Rightarrow> v) = Inl is"
  shows "POST_respond rt res = Inl \<lparr>err_name = ''ZodError'', err_message = zod_error_message rt is\<rparr>"
  using assms by (simp add: POST_respond_def Let_def parse_def)

lemma POST_try_calls:
  "snd (POST_try rt url fetch req) =
     (case req_json req of
        Inl err \<Rightarrow> []
      | Inr data \<Rightarrow>
          (case safeParse chatRequestSchema data of
             Inl is \<Rightarrow> []
           | Inr parsed \<Rightarrow> [upstream_call url parsed]))"
  by (simp add: POST_try_def Let_def split: sum.split fetch_result.split)

section \<open>The chat panel: what a send builds and what every event keeps\<close>

lemmas trim_defs = trim_def trimStart_def trimEnd_def white_space_def

lemma sendMessage_start_request:
  assumes "sendMessage_start st = (st', Some r)"
  shows "message r = trim (input st)"
    and "history r = Some (filter (\<lambda>m. role m \<noteq> ''system'') (messages st))"
    and "messages st' = messages st @ [\<lparr>role = ''user'', content = trim (input st)\<rparr>]"
    and "trim (input st) \<noteq> []" and "\<not> loading st" and "loading st'"
  using assms by (auto simp: sendMessage_start_def Let_def split: if_splits)

lemma ui_step_keeps_system:
  assumes "\<exists>rest. messages st = systemMessage # rest"
  shows "\<exists>rest. messages (ui_step st ev) = systemMessage # rest"
proof (cases ev)
  case (Typed s)
  with assms show ?thesis by simp
next
  case Submitted
  with assms show ?thesis by (auto simp: sendMessage_start_def Let_def)
next
  case (Settled out)
  with assms show ?thesis by (cases out) (auto simp: sendMessage_finish_def)
next
  case Reset
  then show ?thesis by (simp add: resetChat_def)
qed

lemma foldl_ui_step_keeps_system:
  "\<exists>rest. messages st = systemMessage # rest \<Longrightarrow>
   \<exists>rest. messages (foldl ui_step st evs) = systemMessage # rest"
proof (induction evs arbitrary: st)
  case Nil
  then show ?case by simp
next
  case (Cons ev evs)
  from Cons.prems have "\<exists>rest. messages (ui_step st ev) = systemMessage # rest"
    by (rule ui_step_keeps_system)
  then have "\<exists>rest. messages (foldl ui_step (ui_step st ev) evs) = systemMessage # rest"
    by (rule Cons.IH)
  then show ?case by simp
qed

section \<open>The relay: the timeout envelope, totality and refused statuses\<close>

text \<open>
  The signal the handler gives \<open>fetch\<close> is the composition of the request's signal and
  a 20000 ms timeout. When \<open>fetch\<close> rejects with an \<^verbatim>\<open>AbortError\<close> or a
  \<^verbatim>\<open>TimeoutError\<close>, the relay answers with the 504 envelope. Which of the two signals
  fires first, and the exception \<open>fetch\<close> then rejects with, is the platform's and is
  not part of this model.
\<close>

lemma upstream_call_signal:
  "call_signal (upstream_call url parsed) = AbortSignal_any [req_signal, AbortSignal_timeout 20000]"
  by (simp add: upstream_call_def)

lemma POST_timed_out:
  assumes "url \<noteq> []" and "req_json req = Inr data"
    and "safeParse chatRequestSchema data = Inr parsed"
    and "fetch (upstream_call url parsed) = Rejected err"
    and "err_name err = ''AbortError'' \<or> err_name err = ''TimeoutError''"
  shows "POST rt (Some url) fetch req =
           (Inr \<lparr>status = 504, content_type = ''application/json'',
                 body = JsonBody (JObject [(''error'', JString ''Upstream request timed out'')])\<rparr>,
            [upstream_call url parsed])"
  using assms by (simp add: POST_rejected POST_catch_timeout)

text \<open>No exception leaves the handler: every invocation ends in a response.\<close>

lemma POST_catch_total: "\<exists>resp. POST_catch rt err = Inr resp"
  by (cases "err_name err = ''AbortError'' \<or> err_name err = ''TimeoutError''")
     (simp_all add: POST_catch_timeout POST_catch_unexpected)

lemma POST_total: "\<exists>resp. fst (POST rt API_URL fetch req) = Inr resp"
proof (cases "API_URL = None \<or> API_URL = Some []")
  case True
  then show ?thesis by (simp add: POST_unconfigured)
next
  case False
  then obtain url where url: "API_URL = Some url" "url \<noteq> []"
    by (cases API_URL) simp_all
  obtain r calls where t: "POST_try rt url fetch req = (r, calls)"
    by (cases "POST_try rt url fetch req")
  show ?thesis
  proof (cases r)
    case (Inl err)
    with url t show ?thesis by (simp add: POST_catches POST_catch_total)
  next
    case (Inr resp)
    with url t show ?thesis by (simp add: POST_returns)
  qed
qed

text \<open>An upstream status that a response with a body cannot carry ends in the 500
  envelope, not in a pass-through.\<close>

lemma POST_respond_status_refused:
  assumes "\<not> res_ok res"
    and "res_status res < 200 \<or> 599 < res_status res \<or> res_status res = 304"
    and "str_includes (case res_content_type res of None \<Rightarrow> [] | Some s \<Rightarrow> s) ''application/json''
         \<or> res_text res = Inr txt"
  shows "\<exists>err. POST_respond rt res = Inl err
           \<and> (err_name err = ''RangeError'' \<or> err_name err = ''TypeError'')"
  using assms by (auto simp: POST_respond_def Let_def NextResponse_json_def)

section \<open>C1: an empty top-level message\<close>

text \<open>
  C1 says that a request whose top-level \<open>message\<close> is the empty string is rejected
  with the 400 envelope and that no upstream call is issued. The schema declares
  \<^verbatim>\<open>message: z.string()\<close> with no minimum length, unlike \<open>content\<close> of a history
  entry: the request \<^verbatim>\<open>{ "message": "" }\<close> passes validation and is forwarded in the
  one upstream call, whatever the upstream then does; when the upstream answers it, the
  relay's status is 200.
\<close>

theorem C1_empty_message_forwarded:
  "safeParse chatRequestSchema (JObject [(''message'', JString '''')])
     = Inr \<lparr>message = '''', history = None\<rparr>
   \<and> snd (POST rt (Some ''http://upstream'') fetch
              \<lparr>req_json = Inr (JObject [(''message'', JString '''')])\<rparr>)
     = [\<lparr>call_url = ''http://upstream/chat'',
         call_method = ''POST'',
         call_headers = [(''Content-Type'', ''application/json'')],
         call_body = JObject [(''message'', JString '''')],
         call_cache = ''no-store'',
         call_signal = AbortSignal_any [req_signal, AbortSignal_timeout 20000]\<rparr>]
   \<and> fst (POST example_runtime (Some ''http://upstream'')
          (upstream_resolves
             \<lparr>res_status = 200, res_content_type = Some ''application/json'',
              res_json = Some (JObject [(''reply'', JString ''Say more''), (''handled'', JBool False)]),
              res_text = Inr ''{\"reply\":\"Say more\",\"handled\":false}''\<rparr>)
          \<lparr>req_json = Inr (JObject [(''message'', JString '''')])\<rparr>)
     = Inr \<lparr>status = 200, content_type = ''application/json'',
            body = JsonBody (JObject [(''reply'', JString ''Say more''), (''handled'', JBool False)])\<rparr>"
proof -
  let ?res = "\<lparr>res_status = 200, res_content_type = Some ''application/json'',
              res_json = Some (JObject [(''reply'', JString ''Say more''), (''handled'', JBool False)]),
              res_text = Inr ''{\"reply\":\"Say more\",\"handled\":false}''\<rparr>"
  have p: "safeParse chatRequestSchema (JObject [(''message'', JString '''')])
             = Inr \<lparr>message = '''', history = None\<rparr>"
    by (simp add: safeParse_def chatRequestSchema_def z_object2_def z_both_def z_string_def
        z_optional_def)
  have c: "upstream_call ''http://upstream'' \<lparr>message = '''', history = None\<rparr>
             = \<lparr>call_url = ''http://upstream/chat'',
                call_method = ''POST'',
                call_headers = [(''Content-Type'', ''application/json'')],
                call_body = JObject [(''message'', JString '''')],
                call_cache = ''no-store'',
                call_signal = AbortSignal_any [req_signal, AbortSignal_timeout 20000]\<rparr>"
    by (simp add: upstream_call_def ChatRequest_json_def json_object_def)
  have "snd (POST_try rt ''http://upstream'' fetch
               \<lparr>req_json = Inr (JObject [(''message'', JString '''')])\<rparr>)
          = [upstream_call ''http://upstream'' \<lparr>message = '''', history = None\<rparr>]"
    by (simp add: POST_try_def p Let_def split: fetch_result.split)
  then have "snd (POST rt (Some ''http://upstream'') fetch
               \<lparr>req_json = Inr (JObject [(''message'', JString '''')])\<rparr>)
          = [upstream_call ''http://upstream'' \<lparr>message = '''', history = None\<rparr>]"
    by (simp add: POST_calls)
  moreover have "POST_respond example_runtime ?res
          = Inr \<lparr>status = 200, content_type = ''application/json'',
                 body = JsonBody (JObject [(''reply'', JString ''Say more''),
                                           (''handled'', JBool False)])\<rparr>"
    by (simp add: POST_respond_def Let_def res_ok_def parse_def zod_defs NextResponse_json_ok
        ChatResponse_json_def json_object_def)
  then have "fst (POST example_runtime (Some ''http://upstream'') (upstream_resolves ?res)
               \<lparr>req_json = Inr (JObject [(''message'', JString '''')])\<rparr>)
          = Inr \<lparr>status = 200, content_type = ''application/json'',
                 body = JsonBody (JObject [(''reply'', JString ''Say more''),
                                           (''handled'', JBool False)])\<rparr>"
    by (simp add: POST_resolved [where fetch = "upstream_resolves ?res", OF _ _ p]
        upstream_resolves_def)
  ultimately show ?thesis using p c by simp
qed

section \<open>C2: the envelope of a failure that is not a timeout\<close>

text \<open>
  C2 says that a connectivity failure, a missing upstream base URL and any unexpected
  exception all give the body \<^verbatim>\<open>{ error: "Unexpected error", detail: message }\<close> with
  status 500. The status is 500 in each case, but the bodies differ from the claim's:
  when \<open>fetch\<close> rejects with a \<^verbatim>\<open>TypeError\<close> "fetch failed" the \<open>error\<close> text is
  \<^verbatim>\<open>"[API_CHAT] Unexpected error"\<close>, and with no base URL the body is
  \<^verbatim>\<open>{ error: "API_URL not found" }\<close>, with no \<open>detail\<close>.
\<close>

theorem C2_counterexample:
  "fst (POST example_runtime (Some ''http://upstream'')
          (upstream_rejects \<lparr>err_name = ''TypeError'', err_message = ''fetch failed''\<rparr>)
          \<lparr>req_json = Inr (JObject [(''message'', JString ''hi'')])\<rparr>)
     = Inr \<lparr>status = 500, content_type = ''application/json'',
            body = JsonBody (JObject [(''error'', JString ''[API_CHAT] Unexpected error''),
                                      (''detail'', JString ''fetch failed'')])\<rparr>
   \<and> fst (POST example_runtime (Some ''http://upstream'')
          (upstream_rejects \<lparr>err_name = ''TypeError'', err_message = ''fetch failed''\<rparr>)
          \<lparr>req_json = Inr (JObject [(''message'', JString ''hi'')])\<rparr>)
     \<noteq> Inr \<lparr>status = 500, content_type = ''application/json'',
            body = JsonBody (JObject [(''error'', JString ''Unexpected error''),
                                      (''detail'', JString ''fetch failed'')])\<rparr>
   \<and> fst (POST example_runtime None
          (upstream_rejects \<lparr>err_name = ''TypeError'', err_message = ''fetch failed''\<rparr>)
          \<lparr>req_json = Inr (JObject [(''message'', JString ''hi'')])\<rparr>)
     = Inr \<lparr>status = 500, content_type = ''application/json'',
            body = JsonBody (JObject [(''error'', JString ''API_URL not found'')])\<rparr>"
  by (simp add: POST_unconfigured POST_rejected [OF _ _ hi_request_parsed]
      upstream_rejects_def POST_catch_unexpected)

text \<open>
  C2 as amended: with no upstream base URL (unset or empty) the relay answers
  \<^verbatim>\<open>{ error: "API_URL not found" }\<close> with status 500 and makes no upstream call. With
  a base URL, every exception raised inside the handler's \<^verbatim>\<open>try\<close> whose name is
  neither \<^verbatim>\<open>AbortError\<close> nor \<^verbatim>\<open>TimeoutError\<close> gives exactly
  \<^verbatim>\<open>{ error: "[API_CHAT] Unexpected error", detail: message }\<close> with status 500, where
  \<open>message\<close> is the exception's message; in particular when \<open>fetch\<close> rejects
  (a connectivity failure) and when the request body cannot be decoded.
\<close>

theorem C2_failure_envelopes:
  "(API_URL = None \<or> API_URL = Some [] \<longrightarrow>
      POST rt API_URL fetch req =
        (Inr \<lparr>status = 500, content_type = ''application/json'',
              body = JsonBody (JObject [(''error'', JString ''API_URL not found'')])\<rparr>, []))
   \<and> (url \<noteq> [] \<and> fst (POST_try rt url fetch req) = Inl err
        \<and> err_name err \<noteq> ''AbortError'' \<and> err_name err \<noteq> ''TimeoutError'' \<longrightarrow>
      fst (POST rt (Some url) fetch req) =
        Inr \<lparr>status = 500, content_type = ''application/json'',
             body = JsonBody (JObject [(''error'', JString ''[API_CHAT] Unexpected error''),
                                       (''detail'', JString (err_message err))])\<rparr>)
   \<and> (url \<noteq> [] \<and> req_json req = Inr data \<and> safeParse chatRequestSchema data = Inr parsed
        \<and> fetch (upstream_call url parsed) = Rejected err
        \<and> err_name err \<noteq> ''AbortError'' \<and> err_name err \<noteq> ''TimeoutError'' \<longrightarrow>
      fst (POST rt (Some url) fetch req) =
        Inr \<lparr>status = 500, content_type = ''application/json'',
             body = JsonBody (JObject [(''error'', JString ''[API_CHAT] Unexpected error''),
                                       (''detail'', JString (err_message err))])\<rparr>)
   \<and> (url \<noteq> [] \<and> req_json req = Inl err
        \<and> err_name err \<noteq> ''AbortError'' \<and> err_name err \<noteq> ''TimeoutError'' \<longrightarrow>
      fst (POST rt (Some url) fetch req) =
        Inr \<lparr>status = 500, content_type = ''application/json'',
             body = JsonBody (JObject [(''error'', JString ''[API_CHAT] Unexpected error''),
                                       (''detail'', JString (err_message err))])\<rparr>)"
proof (intro conjI impI)
  assume "API_URL = None \<or> API_URL = Some []"
  then show "POST rt API_URL fetch req =
        (Inr \<lparr>status = 500, content_type = ''application/json'',
              body = JsonBody (JObject [(''error'', JString ''API_URL not found'')])\<rparr>, [])"
    by (rule POST_unconfigured)
next
  assume a: "url \<noteq> [] \<and> fst (POST_try rt url fetch req) = Inl err
        \<and> err_name err \<noteq> ''AbortError'' \<and> err_name err \<noteq> ''TimeoutError''"
  obtain calls where "POST_try rt url fetch req = (Inl err, calls)"
    using a by (cases "POST_try rt url fetch req") simp
  with a show "fst (POST rt (Some url) fetch req) =
        Inr \<lparr>status = 500, content_type = ''application/json'',
             body = JsonBody (JObject [(''error'', JString ''[API_CHAT] Unexpected error''),
                                       (''detail'', JString (err_message err))])\<rparr>"
    by (simp add: POST_catches POST_catch_unexpected)
next
  assume "url \<noteq> [] \<and> req_json req = Inr data \<and> safeParse chatRequestSchema data = Inr parsed
        \<and> fetch (upstream_call url parsed) = Rejected err
        \<and> err_name err \<noteq> ''AbortError'' \<and> err_name err \<noteq> ''TimeoutError''"
  then show "fst (POST rt (Some url) fetch req) =
        Inr \<lparr>status = 500, content_type = ''application/json'',
             body = JsonBody (JObject [(''error'', JString ''[API_CHAT] Unexpected error''),
                                       (''detail'', JString (err_message err))])\<rparr>"
    by (simp add: POST_rejected POST_catch_unexpected)
next
  assume "url \<noteq> [] \<and> req_json req = Inl err
        \<and> err_name err \<noteq> ''AbortError'' \<and> err_name err \<noteq> ''TimeoutError''"
  then show "fst (POST rt (Some url) fetch req) =
        Inr \<lparr>status = 500, content_type = ''application/json'',
             body = JsonBody (JObject [(''error'', JString ''[API_CHAT] Unexpected error''),
                                       (''detail'', JString (err_message err))])\<rparr>"
    by (simp add: POST_catches POST_try_bad_body POST_catch_unexpected)
qed

theorem C2_failure_envelopes_witness:
  "POST example_runtime None
     (upstream_rejects \<lparr>err_name = ''TypeError'', err_message = ''fetch failed''\<rparr>)
     \<lparr>req_json = Inr (JObject [(''message'', JString ''hi'')])\<rparr>
     = (Inr \<lparr>status = 500, content_type = ''application/json'',
             body = JsonBody (JObject [(''error'', JString ''API_URL not found'')])\<rparr>, [])
   \<and> fst (POST example_runtime (Some ''http://upstream'')
          (upstream_rejects \<lparr>err_name = ''TypeError'', err_message = ''fetch failed''\<rparr>)
          \<lparr>req_json = Inr (JObject [(''message'', JString ''hi'')])\<rparr>)
     = Inr \<lparr>status = 500, content_type = ''application/json'',
            body = JsonBody (JObject [(''error'', JString ''[API_CHAT] Unexpected error''),
                                      (''detail'', JString ''fetch failed'')])\<rparr>
   \<and> fst (POST example_runtime (Some ''http://upstream'')
          (upstream_rejects \<lparr>err_name = ''TypeError'', err_message = ''fetch failed''\<rparr>)
          \<lparr>req_json = Inl \<lparr>err_name = ''SyntaxError'', err_message = ''Unexpected end of JSON input''\<rparr>\<rparr>)
     = Inr \<lparr>status = 500, content_type = ''application/json'',
            body = JsonBody (JObject [(''error'', JString ''[API_CHAT] Unexpected error''),
                                      (''detail'', JString ''Unexpected end of JSON input'')])\<rparr>"
proof -
  let ?down = "upstream_rejects \<lparr>err_name = ''TypeError'', err_message = ''fetch failed''\<rparr>"
  let ?hi = "\<lparr>req_json = Inr (JObject [(''message'', JString ''hi'')])\<rparr>"
  let ?bad = "\<lparr>req_json = Inl \<lparr>err_name = ''SyntaxError'',
                                   err_message = ''Unexpected end of JSON input''\<rparr>\<rparr>"
  have t: "POST_try example_runtime ''http://upstream'' ?down ?hi
             = (Inl \<lparr>err_name = ''TypeError'', err_message = ''fetch failed''\<rparr>,
                [upstream_call ''http://upstream'' \<lparr>message = ''hi'', history = None\<rparr>])"
    by (simp add: POST_try_rejected [OF _ hi_request_parsed] upstream_rejects_def)
  have 1: "POST example_runtime None ?down ?hi
     = (Inr \<lparr>status = 500, content_type = ''application/json'',
             body = JsonBody (JObject [(''error'', JString ''API_URL not found'')])\<rparr>, [])"
    using C2_failure_envelopes [where API_URL = None and rt = example_runtime
        and fetch = ?down and req = ?hi and url = "''http://upstream''"
        and err = "\<lparr>err_name = ''TypeError'', err_message = ''fetch failed''\<rparr>"
        and data = "JObject [(''message'', JString ''hi'')]"
        and parsed = "\<lparr>message = ''hi'', history = None\<rparr>"]
    by simp
  have 2: "fst (POST example_runtime (Some ''http://upstream'') ?down ?hi)
     = Inr \<lparr>status = 500, content_type = ''application/json'',
            body = JsonBody (JObject [(''error'', JString ''[API_CHAT] Unexpected error''),
                                      (''detail'', JString ''fetch failed'')])\<rparr>"
    using C2_failure_envelopes [where API_URL = None and rt = example_runtime
        and fetch = ?down and req = ?hi and url = "''http://upstream''"
        and err = "\<lparr>err_name = ''TypeError'', err_message = ''fetch failed''\<rparr>"
        and data = "JObject [(''message'', JString ''hi'')]"
        and parsed = "\<lparr>message = ''hi'', history = None\<rparr>"] t
    by simp
  have 3: "fst (POST example_runtime (Some ''http://upstream'') ?down ?bad)
     = Inr \<lparr>status = 500, content_type = ''application/json'',
            body = JsonBody (JObject [(''error'', JString ''[API_CHAT] Unexpected error''),
                                      (''detail'', JString ''Unexpected end of JSON input'')])\<rparr>"
    using C2_failure_envelopes [where API_URL = None and rt = example_runtime
        and fetch = ?down and req = ?bad and url = "''http://upstream''"
        and err = "\<lparr>err_name = ''SyntaxError'', err_message = ''Unexpected end of JSON input''\<rparr>"
        and data = "JObject [(''message'', JString ''hi'')]"
        and parsed = "\<lparr>message = ''hi'', history = None\<rparr>"]
    by simp
  from 1 2 3 show ?thesis by simp
qed

section \<open>C3: an upstream response that is not 2xx\<close>

text \<open>
  C3 says that the \<open>error\<close> text of the relay's answer is the body's \<open>error\<close> field
  if present, else its \<open>message\<close> field if present, else the synthesized text. The
  handler chains the three with \<^verbatim>\<open>||\<close>, which tests truthiness and not presence: for
  the upstream answer 503 \<^verbatim>\<open>{ "error": "", "message": "busy" }\<close> the \<open>error\<close> field is
  present and the relay returns \<^verbatim>\<open>{ error: "busy" }\<close>, not \<^verbatim>\<open>{ error: "" }\<close>.
\<close>

theorem C3_counterexample:
  "fst (POST example_runtime (Some ''http://upstream'')
          (upstream_resolves
             \<lparr>res_status = 503, res_content_type = Some ''application/json'',
              res_json = Some (JObject [(''error'', JString ''''), (''message'', JString ''busy'')]),
              res_text = Inr ''{\"error\":\"\",\"message\":\"busy\"}''\<rparr>)
          \<lparr>req_json = Inr (JObject [(''message'', JString ''hi'')])\<rparr>)
     = Inr \<lparr>status = 503, content_type = ''application/json'',
            body = JsonBody (JObject [(''error'', JString ''busy'')])\<rparr>
   \<and> fst (POST example_runtime (Some ''http://upstream'')
          (upstream_resolves
             \<lparr>res_status = 503, res_content_type = Some ''application/json'',
              res_json = Some (JObject [(''error'', JString ''''), (''message'', JString ''busy'')]),
              res_text = Inr ''{\"error\":\"\",\"message\":\"busy\"}''\<rparr>)
          \<lparr>req_json = Inr (JObject [(''message'', JString ''hi'')])\<rparr>)
     \<noteq> Inr \<lparr>status = 503, content_type = ''application/json'',
            body = JsonBody (JObject [(''error'', JString '''')])\<rparr>"
proof -
  let ?res = "\<lparr>res_status = 503, res_content_type = Some ''application/json'',
              res_json = Some (JObject [(''error'', JString ''''), (''message'', JString ''busy'')]),
              res_text = Inr ''{\"error\":\"\",\"message\":\"busy\"}''\<rparr>"
  have m: "upstream_message (JObject [(''error'', JString ''''), (''message'', JString ''busy'')]) 503
             = Some (JString ''busy'')"
    by (rule upstream_message_message) simp_all
  have "POST_respond example_runtime ?res
          = Inr \<lparr>status = 503, content_type = ''application/json'',
                 body = JsonBody (JObject [(''error'', JString ''busy'')])\<rparr>"
    using m by (simp add: POST_respond_def res_ok_def NextResponse_json_ok json_object_def)
  then show ?thesis
    by (simp add: POST_resolved [where fetch = "upstream_resolves ?res", OF _ _ hi_request_parsed]
        upstream_resolves_def)
qed

text \<open>
  C3 as amended: for every upstream response with a non-2xx status that a response with
  a body can carry (300 to 599, except 304), whose body could be read, the relay returns
  \<^verbatim>\<open>{ error: m }\<close> with the upstream status, where \<open>m\<close> is the body's \<open>error\<close> field
  if that is truthy, else its \<open>message\<close> field if that is truthy, else the text
  \<^verbatim>\<open>Upstream error <status>\<close>. The body is decoded as JSON only under a content type
  that includes \<^verbatim>\<open>application/json\<close> (\<^verbatim>\<open>null\<close> when decoding fails); under any
  other content type the payload is the text, which has neither field. In particular,
  upstream 503 with \<^verbatim>\<open>{ error: "overloaded" }\<close> gives \<^verbatim>\<open>{ error: "overloaded" }\<close> with
  status 503.
\<close>

theorem C3_upstream_error_passthrough:
  assumes "url \<noteq> []" and "req_json req = Inr data"
    and "safeParse chatRequestSchema data = Inr parsed"
    and "fetch (upstream_call url parsed) = Resolved res"
    and "\<not> res_ok res"
    and "200 \<le> res_status res" and "res_status res \<le> 599" and "res_status res \<noteq> 304"
    and "isJson = str_includes (case res_content_type res of None \<Rightarrow> [] | Some s \<Rightarrow> s)
                    ''application/json''"
    and "isJson \<or> res_text res = Inr txt"
    and "payload = (if isJson then (case res_json res of None \<Rightarrow> JNull | Some v \<Rightarrow> v)
                    else JString txt)"
  shows "\<exists>m. POST rt (Some url) fetch req =
                (Inr \<lparr>status = res_status res, content_type = ''application/json'',
                      body = JsonBody (JObject [(''error'', m)])\<rparr>,
                 [upstream_call url parsed])
             \<and> (\<forall>v. get_prop payload ''error'' = Some v \<and> truthy v \<longrightarrow> m = v)
             \<and> (\<forall>v. (\<forall>e. get_prop payload ''error'' = Some e \<longrightarrow> \<not> truthy e)
                     \<and> get_prop payload ''message'' = Some v \<and> truthy v \<longrightarrow> m = v)
             \<and> ((\<forall>e. get_prop payload ''error'' = Some e \<longrightarrow> \<not> truthy e)
                  \<and> (\<forall>v. get_prop payload ''message'' = Some v \<longrightarrow> \<not> truthy v) \<longrightarrow>
                 m = JString (''Upstream error '' @ show_nat (res_status res)))"
proof -
  obtain m where m: "upstream_message payload (res_status res) = Some m"
    using upstream_message_defined by blast
  have "POST_respond rt res =
          Inr \<lparr>status = res_status res, content_type = ''application/json'',
               body = JsonBody (JObject [(''error'', m)])\<rparr>"
    using assms(5-11) m by (rule POST_respond_not_ok)
  then have 1: "POST rt (Some url) fetch req =
                (Inr \<lparr>status = res_status res, content_type = ''application/json'',
                      body = JsonBody (JObject [(''error'', m)])\<rparr>,
                 [upstream_call url parsed])"
    by (simp add: POST_resolved [where fetch = fetch, OF assms(1-4)])
  have 2: "m = v" if "get_prop payload ''error'' = Some v \<and> truthy v" for v
  proof -
    from that have "upstream_message payload (res_status res) = Some v"
      by (simp add: upstream_message_error)
    with m show ?thesis by simp
  qed
  have 3: "m = v"
    if "(\<forall>e. get_prop payload ''error'' = Some e \<longrightarrow> \<not> truthy e)
          \<and> get_prop payload ''message'' = Some v \<and> truthy v" for v
  proof -
    from that have "upstream_message payload (res_status res) = Some v"
      by (simp add: upstream_message_message)
    with m show ?thesis by simp
  qed
  have 4: "m = JString (''Upstream error '' @ show_nat (res_status res))"
    if "(\<forall>e. get_prop payload ''error'' = Some e \<longrightarrow> \<not> truthy e)
          \<and> (\<forall>v. get_prop payload ''message'' = Some v \<longrightarrow> \<not> truthy v)"
  proof -
    from that have "upstream_message payload (res_status res)
                      = Some (JString (''Upstream error '' @ show_nat (res_status res)))"
      by (simp add: upstream_message_synthesized)
    with m show ?thesis by simp
  qed
  from 1 2 3 4 show ?thesis by blast
qed

theorem C3_upstream_error_passthrough_witness:
  "POST example_runtime (Some ''http://upstream'')
     (upstream_resolves
        \<lparr>res_status = 503, res_content_type = Some ''application/json'',
         res_json = Some (JObject [(''error'', JString ''overloaded'')]),
         res_text = Inr ''{\"error\":\"overloaded\"}''\<rparr>)
     \<lparr>req_json = Inr (JObject [(''message'', JString ''hi'')])\<rparr>
   = (Inr \<lparr>status = 503, content_type = ''application/json'',
           body = JsonBody (JObject [(''error'', JString ''overloaded'')])\<rparr>,
      [upstream_call ''http://upstream'' \<lparr>message = ''hi'', history = None\<rparr>])"
proof -
  let ?res = "\<lparr>res_status = 503, res_content_type = Some ''application/json'',
         res_json = Some (JObject [(''error'', JString ''overloaded'')]),
         res_text = Inr ''{\"error\":\"overloaded\"}''\<rparr>"
  let ?req = "\<lparr>req_json = Inr (JObject [(''message'', JString ''hi'')])\<rparr>"
  let ?payload = "JObject [(''error'', JString ''overloaded'')]"
  have h: "''http://upstream'' \<noteq> []"
    "req_json ?req = Inr (JObject [(''message'', JString ''hi'')])"
    "upstream_resolves ?res (upstream_call ''http://upstream'' \<lparr>message = ''hi'', history = None\<rparr>)
       = Resolved ?res"
    "\<not> res_ok ?res" "200 \<le> res_status ?res" "res_status ?res \<le> 599" "res_status ?res \<noteq> 304"
    "True = str_includes (case res_content_type ?res of None \<Rightarrow> [] | Some s \<Rightarrow> s)
                    ''application/json''"
    "True \<or> res_text ?res = Inr ''{\"error\":\"overloaded\"}''"
    "?payload = (if True then (case res_json ?res of None \<Rightarrow> JNull | Some v \<Rightarrow> v)
                 else JString ''{\"error\":\"overloaded\"}'')"
    by (simp_all add: upstream_resolves_def res_ok_def)
  obtain m where
    p: "POST example_runtime (Some ''http://upstream'') (upstream_resolves ?res) ?req =
          (Inr \<lparr>status = res_status ?res, content_type = ''application/json'',
                body = JsonBody (JObject [(''error'', m)])\<rparr>,
           [upstream_call ''http://upstream'' \<lparr>message = ''hi'', history = None\<rparr>])"
    and e: "\<forall>v. get_prop ?payload ''error'' = Some v \<and> truthy v \<longrightarrow> m = v"
    using C3_upstream_error_passthrough [where fetch = "upstream_resolves ?res"
        and rt = example_runtime, OF h(1,2) hi_request_parsed h(3-10)]
    by blast
  from e have "m = JString ''overloaded''" by simp
  with p show ?thesis by simp
qed

section \<open>C5: an upstream 2xx JSON response\<close>



section \<open>C6: the request validator\<close>

text \<open>
  C6: \<^verbatim>\<open>chatRequestSchema.safeParse\<close> returns a result for every decoded JSON value
  and never throws. For a request object it accepts a non-empty string \<open>message\<close>
  with \<open>history\<close> absent or an array whose entries are objects with a \<open>role\<close> among
  user, assistant and system and a non-empty string \<open>content\<close>. It rejects an object
  with no \<open>message\<close>, reporting an issue at the path \<open>message\<close>; an object whose
  history entry \<open>n\<close> has a missing or invalid \<open>role\<close>, reporting an issue at
  \<open>history.n.role\<close>; and an object whose history entry \<open>n\<close> has the empty string as
  \<open>content\<close>, reporting the issue "Message cannot be empty" at \<open>history.n.content\<close>.
  When the validator rejects, the route (which runs it once the upstream base URL is
  found) answers \<^verbatim>\<open>{ error: "Invalid request data", issues }\<close> with status 400 and
  makes no upstream call.
\<close>

theorem C6_validator:
  "((\<exists>iss. safeParse chatRequestSchema data = Inl iss) \<or> (\<exists>d. safeParse chatRequestSchema data = Inr d))
   \<and> (\<forall>kvs m. data = JObject kvs \<and> map_of kvs ''message'' = Some (JString m) \<and> m \<noteq> []
          \<and> (map_of kvs ''history'' = None \<or>
              (\<exists>es. map_of kvs ''history'' = Some (JArray es) \<and>
                 (\<forall>e\<in>set es. \<exists>fs r c. e = JObject fs \<and> map_of fs ''role'' = Some (JString r)
                    \<and> r \<in> {''user'', ''assistant'', ''system''}
                    \<and> map_of fs ''content'' = Some (JString c) \<and> c \<noteq> []))) \<longrightarrow>
        (\<exists>d. safeParse chatRequestSchema data = Inr d \<and> message d = m))
   \<and> (\<forall>kvs. data = JObject kvs \<and> map_of kvs ''message'' = None \<longrightarrow>
        (\<exists>iss. safeParse chatRequestSchema data = Inl iss
           \<and> (\<exists>i\<in>set iss. issue_path i = [Key ''message''])))
   \<and> (\<forall>kvs es n fs. data = JObject kvs \<and> map_of kvs ''history'' = Some (JArray es)
          \<and> n < length es \<and> es ! n = JObject fs
          \<and> (\<forall>r. map_of fs ''role'' = Some (JString r) \<longrightarrow> r \<notin> {''user'', ''assistant'', ''system''}) \<longrightarrow>
        (\<exists>iss. safeParse chatRequestSchema data = Inl iss
           \<and> (\<exists>i\<in>set iss. issue_path i = [Key ''history'', Index n, Key ''role''])))
   \<and> (\<forall>kvs es n fs. data = JObject kvs \<and> map_of kvs ''history'' = Some (JArray es)
          \<and> n < length es \<and> es ! n = JObject fs
          \<and> map_of fs ''content'' = Some (JString []) \<longrightarrow>
        (\<exists>iss. safeParse chatRequestSchema data = Inl iss
           \<and> (\<exists>i\<in>set iss. issue_path i = [Key ''history'', Index n, Key ''content'']
                 \<and> issue_message i = Some ''Message cannot be empty'')))
   \<and> (\<forall>iss. url \<noteq> [] \<and> req_json req = Inr data \<and> safeParse chatRequestSchema data = Inl iss \<longrightarrow>
        POST rt (Some url) fetch req =
          (Inr \<lparr>status = 400, content_type = ''application/json'',
                body = JsonBody (JObject [(''error'', JString ''Invalid request data''),
                                          (''issues'', zod_issues_json rt iss)])\<rparr>, []))"
proof (intro conjI allI impI)
  show "(\<exists>iss. safeParse chatRequestSchema data = Inl iss) \<or> (\<exists>d. safeParse chatRequestSchema data = Inr d)"
    by (cases "safeParse chatRequestSchema data") simp_all
next
  fix kvs m
  assume a: "data = JObject kvs \<and> map_of kvs ''message'' = Some (JString m) \<and> m \<noteq> []
          \<and> (map_of kvs ''history'' = None \<or>
              (\<exists>es. map_of kvs ''history'' = Some (JArray es) \<and>
                 (\<forall>e\<in>set es. \<exists>fs r c. e = JObject fs \<and> map_of fs ''role'' = Some (JString r)
                    \<and> r \<in> {''user'', ''assistant'', ''system''}
                    \<and> map_of fs ''content'' = Some (JString c) \<and> c \<noteq> [])))"
  then have h: "map_of kvs ''message'' = Some (JString m)"
    "map_of kvs ''history'' = None \<or>
              (\<exists>es. map_of kvs ''history'' = Some (JArray es) \<and>
                 (\<forall>e\<in>set es. \<exists>fs r c. e = JObject fs \<and> map_of fs ''role'' = Some (JString r)
                    \<and> r \<in> {''user'', ''assistant'', ''system''}
                    \<and> map_of fs ''content'' = Some (JString c) \<and> c \<noteq> []))"
    by simp_all
  then have "\<exists>d. safeParse chatRequestSchema (JObject kvs) = Inr d \<and> message d = m"
    by (rule chatRequestSchema_accepts)
  with a show "\<exists>d. safeParse chatRequestSchema data = Inr d \<and> message d = m" by simp
next
  fix kvs
  assume a: "data = JObject kvs \<and> map_of kvs ''message'' = None"
  then have "Issue (invalid_type ''string'') [Key ''message''] None
               \<in> set (issues_of (safeParse chatRequestSchema data))"
    by (simp add: missing_message_issue)
  from issue_gives_Inl [OF this]
  show "\<exists>iss. safeParse chatRequestSchema data = Inl iss
           \<and> (\<exists>i\<in>set iss. issue_path i = [Key ''message''])"
    by force
next
  fix kvs es n fs
  assume a: "data = JObject kvs \<and> map_of kvs ''history'' = Some (JArray es)
          \<and> n < length es \<and> es ! n = JObject fs
          \<and> (\<forall>r. map_of fs ''role'' = Some (JString r) \<longrightarrow> r \<notin> {''user'', ''assistant'', ''system''})"
  then have h: "map_of kvs ''history'' = Some (JArray es)" "n < length es" "es ! n = JObject fs"
    "\<forall>r. map_of fs ''role'' = Some (JString r) \<longrightarrow> r \<notin> {''user'', ''assistant'', ''system''}"
    by simp_all
  then have "Issue (invalid_value [''user'', ''assistant'', ''system''])
                [Key ''history'', Index n, Key ''role''] None
               \<in> set (issues_of (safeParse chatRequestSchema (JObject kvs)))"
    by (rule invalid_role_issue)
  with a have "Issue (invalid_value [''user'', ''assistant'', ''system''])
                [Key ''history'', Index n, Key ''role''] None
               \<in> set (issues_of (safeParse chatRequestSchema data))"
    by simp
  from issue_gives_Inl [OF this]
  show "\<exists>iss. safeParse chatRequestSchema data = Inl iss
           \<and> (\<exists>i\<in>set iss. issue_path i = [Key ''history'', Index n, Key ''role''])"
    by force
next
  fix kvs es n fs
  assume a: "data = JObject kvs \<and> map_of kvs ''history'' = Some (JArray es)
          \<and> n < length es \<and> es ! n = JObject fs
          \<and> map_of fs ''content'' = Some (JString [])"
  then have h: "map_of kvs ''history'' = Some (JArray es)" "n < length es" "es ! n = JObject fs"
    "map_of fs ''content'' = Some (JString [])"
    by simp_all
  then have "Issue (too_small 1) [Key ''history'', Index n, Key ''content'']
                (Some ''Message cannot be empty'')
               \<in> set (issues_of (safeParse chatRequestSchema (JObject kvs)))"
    by (rule empty_content_issue)
  with a have "Issue (too_small 1) [Key ''history'', Index n, Key ''content'']
                (Some ''Message cannot be empty'')
               \<in> set (issues_of (safeParse chatRequestSchema data))"
    by simp
  from issue_gives_Inl [OF this]
  show "\<exists>iss. safeParse chatRequestSchema data = Inl iss
           \<and> (\<exists>i\<in>set iss. issue_path i = [Key ''history'', Index n, Key ''content'']
                 \<and> issue_message i = Some ''Message cannot be empty'')"
    by force
next
  fix iss
  assume "url \<noteq> [] \<and> req_json req = Inr data \<and> safeParse chatRequestSchema data = Inl iss"
  then show "POST rt (Some url) fetch req =
          (Inr \<lparr>status = 400, content_type = ''application/json'',
                body = JsonBody (JObject [(''error'', JString ''Invalid request data''),
                                          (''issues'', zod_issues_json rt iss)])\<rparr>, [])"
    by (simp add: POST_returns POST_try_invalid)
qed

theorem C6_validator_witness:
  "(\<exists>d. safeParse chatRequestSchema
           (JObject [(''message'', JString ''hi''),
                     (''history'', JArray [JObject [(''role'', JString ''user''),
                                                    (''content'', JString ''a'')]])]) = Inr d
        \<and> message d = ''hi'')
   \<and> (\<exists>iss. safeParse chatRequestSchema (JObject [(''history'', JArray [])]) = Inl iss
        \<and> (\<exists>i\<in>set iss. issue_path i = [Key ''message'']))
   \<and> (\<exists>iss. safeParse chatRequestSchema
           (JObject [(''message'', JString ''hi''),
                     (''history'', JArray [JObject [(''role'', JString ''bot''),
                                                    (''content'', JString ''a'')]])]) = Inl iss
        \<and> (\<exists>i\<in>set iss. issue_path i = [Key ''history'', Index 0, Key ''role'']))
   \<and> (\<exists>iss. safeParse chatRequestSchema
           (JObject [(''message'', JString ''hi''),
                     (''history'', JArray [JObject [(''role'', JString ''user''),
                                                    (''content'', JString '''')]])]) = Inl iss
        \<and> (\<exists>i\<in>set iss. issue_path i = [Key ''history'', Index 0, Key ''content'']
              \<and> issue_message i = Some ''Message cannot be empty''))
   \<and> POST example_runtime (Some ''http://upstream'')
        (upstream_rejects \<lparr>err_name = ''TypeError'', err_message = ''fetch failed''\<rparr>)
        \<lparr>req_json = Inr (JObject [(''history'', JArray [])])\<rparr>
      = (Inr \<lparr>status = 400, content_type = ''application/json'',
              body = JsonBody (JObject [(''error'', JString ''Invalid request data''),
                                        (''issues'', JArray [JObject [(''path'', JArray [JString ''message''])]])])\<rparr>,
         [])"
proof -
  let ?ok = "JObject [(''message'', JString ''hi''),
                     (''history'', JArray [JObject [(''role'', JString ''user''),
                                                    (''content'', JString ''a'')]])]"
  let ?nomsg = "JObject [(''history'', JArray [])]"
  let ?role = "JObject [(''message'', JString ''hi''),
                     (''history'', JArray [JObject [(''role'', JString ''bot''),
                                                    (''content'', JString ''a'')]])]"
  let ?empty = "JObject [(''message'', JString ''hi''),
                     (''history'', JArray [JObject [(''role'', JString ''user''),
                                                    (''content'', JString '''')]])]"
  have 1: "\<exists>d. safeParse chatRequestSchema ?ok = Inr d \<and> message d = ''hi''"
    by (rule C6_validator [where data = ?ok, THEN conjunct2, THEN conjunct1, rule_format,
          where kvs = "[(''message'', JString ''hi''),
                     (''history'', JArray [JObject [(''role'', JString ''user''),
                                                    (''content'', JString ''a'')]])]"])
      simp
  have 2: "\<exists>iss. safeParse chatRequestSchema ?nomsg = Inl iss
        \<and> (\<exists>i\<in>set iss. issue_path i = [Key ''message''])"
    by (rule C6_validator [where data = ?nomsg, THEN conjunct2, THEN conjunct2, THEN conjunct1,
          rule_format, where kvs = "[(''history'', JArray [])]"])
      simp
  have 3: "\<exists>iss. safeParse chatRequestSchema ?role = Inl iss
        \<and> (\<exists>i\<in>set iss. issue_path i = [Key ''history'', Index 0, Key ''role''])"
    by (rule C6_validator [where data = ?role, THEN conjunct2, THEN conjunct2, THEN conjunct2,
          THEN conjunct1, rule_format,
          where kvs = "[(''message'', JString ''hi''),
                     (''history'', JArray [JObject [(''role'', JString ''bot''),
                                                    (''content'', JString ''a'')]])]"
            and es = "[JObject [(''role'', JString ''bot''), (''content'', JString ''a'')]]"
            and fs = "[(''role'', JString ''bot''), (''content'', JString ''a'')]"])
      simp
  have 4: "\<exists>iss. safeParse chatRequestSchema ?empty = Inl iss
        \<and> (\<exists>i\<in>set iss. issue_path i = [Key ''history'', Index 0, Key ''content'']
              \<and> issue_message i = Some ''Message cannot be empty'')"
    by (rule C6_validator [where data = ?empty, THEN conjunct2, THEN conjunct2, THEN conjunct2,
          THEN conjunct2, THEN conjunct1, rule_format,
          where kvs = "[(''message'', JString ''hi''),
                     (''history'', JArray [JObject [(''role'', JString ''user''),
                                                    (''content'', JString '''')]])]"
            and es = "[JObject [(''role'', JString ''user''), (''content'', JString '''')]]"
            and fs = "[(''role'', JString ''user''), (''content'', JString '''')]"])
      simp
  have p: "safeParse chatRequestSchema ?nomsg = Inl [Issue (invalid_type ''string'') [Key ''message''] None]"
    by (simp add: zod_defs)
  have 5: "POST example_runtime (Some ''http://upstream'')
        (upstream_rejects \<lparr>err_name = ''TypeError'', err_message = ''fetch failed''\<rparr>)
        \<lparr>req_json = Inr ?nomsg\<rparr>
      = (Inr \<lparr>status = 400, content_type = ''application/json'',
              body = JsonBody (JObject [(''error'', JString ''Invalid request data''),
                                        (''issues'', JArray [JObject [(''path'', JArray [JString ''message''])]])])\<rparr>,
         [])"
    using C6_validator [where data = ?nomsg and url = "''http://upstream''"
        and rt = example_runtime and req = "\<lparr>req_json = Inr ?nomsg\<rparr>"
        and fetch = "upstream_rejects \<lparr>err_name = ''TypeError'', err_message = ''fetch failed''\<rparr>",
        THEN conjunct2, THEN conjunct2, THEN conjunct2, THEN conjunct2, THEN conjunct2,
        rule_format, where iss = "[Issue (invalid_type ''string'') [Key ''message''] None]"] p
    by (simp add: example_runtime_def issue_json_def path_elem_json_def json_object_def)
  from 1 2 3 4 5 show ?thesis by (intro conjI)
qed

section \<open>C7: no upstream call without a base URL or before validation\<close>

text \<open>
  C7: with no upstream base URL the relay answers 500 and makes no upstream call; when
  validation fails it answers 400 and makes no upstream call; and whenever the relay
  makes an upstream call at all, the base URL is configured, the request body was decoded
  and validation succeeded, and the call is the single one built from the validated data.
\<close>

theorem C7_no_call_before_validation:
  "(API_URL = None \<or> API_URL = Some [] \<longrightarrow>
      POST rt API_URL fetch req =
        (Inr \<lparr>status = 500, content_type = ''application/json'',
              body = JsonBody (JObject [(''error'', JString ''API_URL not found'')])\<rparr>, []))
   \<and> (\<forall>url data iss. API_URL = Some url \<and> url \<noteq> [] \<and> req_json req = Inr data
          \<and> safeParse chatRequestSchema data = Inl iss \<longrightarrow>
        POST rt API_URL fetch req =
          (Inr \<lparr>status = 400, content_type = ''application/json'',
                body = JsonBody (JObject [(''error'', JString ''Invalid request data''),
                                          (''issues'', zod_issues_json rt iss)])\<rparr>, []))
   \<and> (snd (POST rt API_URL fetch req) \<noteq> [] \<longrightarrow>
        (\<exists>url data parsed. API_URL = Some url \<and> url \<noteq> [] \<and> req_json req = Inr data
           \<and> safeParse chatRequestSchema data = Inr parsed
           \<and> snd (POST rt API_URL fetch req) = [upstream_call url parsed]))"
proof (intro conjI allI impI)
  assume "API_URL = None \<or> API_URL = Some []"
  then show "POST rt API_URL fetch req =
        (Inr \<lparr>status = 500, content_type = ''application/json'',
              body = JsonBody (JObject [(''error'', JString ''API_URL not found'')])\<rparr>, [])"
    by (rule POST_unconfigured)
next
  fix url data iss
  assume "API_URL = Some url \<and> url \<noteq> [] \<and> req_json req = Inr data
          \<and> safeParse chatRequestSchema data = Inl iss"
  then show "POST rt API_URL fetch req =
          (Inr \<lparr>status = 400, content_type = ''application/json'',
                body = JsonBody (JObject [(''error'', JString ''Invalid request data''),
                                          (''issues'', zod_issues_json rt iss)])\<rparr>, [])"
    by (simp add: POST_returns POST_try_invalid)
next
  assume calls: "snd (POST rt API_URL fetch req) \<noteq> []"
  have "\<not> (API_URL = None \<or> API_URL = Some [])"
  proof
    assume "API_URL = None \<or> API_URL = Some []"
    then have "snd (POST rt API_URL fetch req) = []" by (simp add: POST_unconfigured)
    with calls show False by simp
  qed
  then obtain url where url: "API_URL = Some url" "url \<noteq> []"
    by (cases API_URL) simp_all
  then have c: "snd (POST rt API_URL fetch req) = snd (POST_try rt url fetch req)"
    by (simp add: POST_calls)
  with calls have t: "snd (POST_try rt url fetch req) \<noteq> []" by simp
  then obtain data where data: "req_json req = Inr data"
    by (cases "req_json req") (simp_all add: POST_try_calls)
  with t obtain parsed where parsed: "safeParse chatRequestSchema data = Inr parsed"
    by (cases "safeParse chatRequestSchema data") (simp_all add: POST_try_calls)
  with data c have "snd (POST rt API_URL fetch req) = [upstream_call url parsed]"
    by (simp add: POST_try_calls)
  with url data parsed
  show "\<exists>url data parsed. API_URL = Some url \<and> url \<noteq> [] \<and> req_json req = Inr data
           \<and> safeParse chatRequestSchema data = Inr parsed
           \<and> snd (POST rt API_URL fetch req) = [upstream_call url parsed]"
    by blast
qed

theorem C7_no_call_before_validation_witness:
  "POST example_runtime None (upstream_resolves
        \<lparr>res_status = 200, res_content_type = Some ''application/json'',
         res_json = Some (JObject [(''reply'', JString ''Paris''), (''handled'', JBool True)]),
         res_text = Inr ''{\"reply\":\"Paris\",\"handled\":true}''\<rparr>)
      \<lparr>req_json = Inr (JObject [(''message'', JString ''hi'')])\<rparr>
     = (Inr \<lparr>status = 500, content_type = ''application/json'',
             body = JsonBody (JObject [(''error'', JString ''API_URL not found'')])\<rparr>, [])
   \<and> POST example_runtime (Some ''http://upstream'') (upstream_resolves
        \<lparr>res_status = 200, res_content_type = Some ''application/json'',
         res_json = Some (JObject [(''reply'', JString ''Paris''), (''handled'', JBool True)]),
         res_text = Inr ''{\"reply\":\"Paris\",\"handled\":true}''\<rparr>)
      \<lparr>req_json = Inr (JObject [(''history'', JArray [])])\<rparr>
     = (Inr \<lparr>status = 400, content_type = ''application/json'',
             body = JsonBody (JObject [(''error'', JString ''Invalid request data''),
                                       (''issues'', JArray [JObject [(''path'', JArray [JString ''message''])]])])\<rparr>,
        [])
   \<and> (\<exists>url data parsed. Some ''http://upstream'' = Some url \<and> url \<noteq> []
        \<and> Inr (JObject [(''message'', JString ''hi'')]) = Inr data
        \<and> safeParse chatRequestSchema data = Inr parsed
        \<and> snd (POST example_runtime (Some ''http://upstream'') (upstream_resolves
              \<lparr>res_status = 200, res_content_type = Some ''application/json'',
               res_json = Some (JObject [(''reply'', JString ''Paris''), (''handled'', JBool True)]),
               res_text = Inr ''{\"reply\":\"Paris\",\"handled\":true}''\<rparr>)
              \<lparr>req_json = Inr (JObject [(''message'', JString ''hi'')])\<rparr>)
            = [upstream_call url parsed])"
proof -
  let ?up = "upstream_resolves
        \<lparr>res_status = 200, res_content_type = Some ''application/json'',
         res_json = Some (JObject [(''reply'', JString ''Paris''), (''handled'', JBool True)]),
         res_text = Inr ''{\"reply\":\"Paris\",\"handled\":true}''\<rparr>"
  let ?hi = "\<lparr>req_json = Inr (JObject [(''message'', JString ''hi'')])\<rparr>"
  let ?nomsg = "\<lparr>req_json = Inr (JObject [(''history'', JArray [])])\<rparr>"
  have 1: "POST example_runtime None ?up ?hi
     = (Inr \<lparr>status = 500, content_type = ''application/json'',
             body = JsonBody (JObject [(''error'', JString ''API_URL not found'')])\<rparr>, [])"
    using C7_no_call_before_validation [where API_URL = None and rt = example_runtime
        and fetch = ?up and req = ?hi, THEN conjunct1]
    by simp
  have p: "safeParse chatRequestSchema (JObject [(''history'', JArray [])])
             = Inl [Issue (invalid_type ''string'') [Key ''message''] None]"
    by (simp add: zod_defs)
  have 2: "POST example_runtime (Some ''http://upstream'') ?up ?nomsg
     = (Inr \<lparr>status = 400, content_type = ''application/json'',
             body = JsonBody (JObject [(''error'', JString ''Invalid request data''),
                                       (''issues'', JArray [JObject [(''path'', JArray [JString ''message''])]])])\<rparr>,
        [])"
    using C7_no_call_before_validation [where API_URL = "Some ''http://upstream''"
        and rt = example_runtime and fetch = ?up and req = ?nomsg,
        THEN conjunct2, THEN conjunct1, rule_format,
        where url = "''http://upstream''" and data = "JObject [(''history'', JArray [])]"
          and iss = "[Issue (invalid_type ''string'') [Key ''message''] None]"] p
    by (simp add: example_runtime_def issue_json_def path_elem_json_def json_object_def)
  have "snd (POST example_runtime (Some ''http://upstream'') ?up ?hi) \<noteq> []"
    by (simp add: POST_calls POST_try_calls hi_request_parsed)
  then have 3: "\<exists>url data parsed. Some ''http://upstream'' = Some url \<and> url \<noteq> []
        \<and> req_json ?hi = Inr data
        \<and> safeParse chatRequestSchema data = Inr parsed
        \<and> snd (POST example_runtime (Some ''http://upstream'') ?up ?hi) = [upstream_call url parsed]"
    by (rule C7_no_call_before_validation [where API_URL = "Some ''http://upstream''"
        and rt = example_runtime and fetch = ?up and req = ?hi,
        THEN conjunct2, THEN conjunct2, rule_format])
  from 1 2 3 show ?thesis by simp
qed

section \<open>C8: the request reaches the upstream unchanged\<close>

text \<open>
  C8: for every request that validates, the relay's one upstream call carries the
  validated data, whose \<open>message\<close> is the request's \<open>message\<close> and whose \<open>history\<close> is
  absent when the request has none and otherwise has the same length as the request's,
  with the same \<open>role\<close> and the same \<open>content\<close> at every index. Validating the
  forwarded body again gives the same data, so an echoed sequence round-trips. The request
  \<open>sendMessage\<close> builds has as \<open>history\<close> the conversation's messages in their order,
  without the system ones, and validates to itself when every message of the conversation
  has one of the three roles and a non-empty content.
\<close>

theorem C8_request_preserved:
  assumes "url \<noteq> []" and "req_json req = Inr data"
    and "safeParse chatRequestSchema data = Inr parsed"
  shows "snd (POST rt (Some url) fetch req) = [upstream_call url parsed]
     \<and> get_prop (call_body (upstream_call url parsed)) ''message'' = get_prop data ''message''
     \<and> (get_prop data ''history'' = None \<longrightarrow>
          get_prop (call_body (upstream_call url parsed)) ''history'' = None)
     \<and> (\<forall>es. get_prop data ''history'' = Some (JArray es) \<longrightarrow>
          (\<exists>bs. get_prop (call_body (upstream_call url parsed)) ''history'' = Some (JArray bs)
             \<and> length bs = length es
             \<and> (\<forall>n<length es. get_prop (bs ! n) ''role'' = get_prop (es ! n) ''role''
                   \<and> get_prop (bs ! n) ''content'' = get_prop (es ! n) ''content'')))
     \<and> safeParse chatRequestSchema (call_body (upstream_call url parsed)) = Inr parsed
     \<and> (\<forall>st st' r. sendMessage_start st = (st', Some r)
            \<and> (\<forall>m\<in>set (messages st). role m \<in> {''user'', ''assistant'', ''system''} \<and> content m \<noteq> []) \<longrightarrow>
          history r = Some (filter (\<lambda>m. role m \<noteq> ''system'') (messages st))
          \<and> safeParse chatRequestSchema (ChatRequest_json r) = Inr r)"
proof (intro conjI allI impI)
  note p = parsed_request [OF assms(3)]
  have body: "call_body (upstream_call url parsed) = ChatRequest_json parsed"
    by (simp add: upstream_call_def)
  show "snd (POST rt (Some url) fetch req) = [upstream_call url parsed]"
    using assms by (simp add: POST_calls POST_try_calls)
  show "get_prop (call_body (upstream_call url parsed)) ''message'' = get_prop data ''message''"
    by (simp add: body get_prop_ChatRequest_json p(1))
  show "get_prop (call_body (upstream_call url parsed)) ''history'' = None"
    if "get_prop data ''history'' = None"
    using p(2) [OF that] by (simp add: body get_prop_ChatRequest_json)
  show "\<exists>bs. get_prop (call_body (upstream_call url parsed)) ''history'' = Some (JArray bs)
             \<and> length bs = length es
             \<and> (\<forall>n<length es. get_prop (bs ! n) ''role'' = get_prop (es ! n) ''role''
                   \<and> get_prop (bs ! n) ''content'' = get_prop (es ! n) ''content'')"
    if "get_prop data ''history'' = Some (JArray es)" for es
  proof -
    from p(3) [OF that] obtain h where h: "history parsed = Some h" "length h = length es"
      and nth: "\<And>n. n < length es \<Longrightarrow>
                  get_prop (es ! n) ''role'' = Some (JString (role (h ! n)))
                  \<and> get_prop (es ! n) ''content'' = Some (JString (content (h ! n)))"
      by blast
    have "get_prop (call_body (upstream_call url parsed)) ''history''
            = Some (JArray (map ChatMessage_json h))"
      by (simp add: body get_prop_ChatRequest_json h(1))
    moreover have "length (map ChatMessage_json h) = length es" by (simp add: h(2))
    moreover have "\<forall>n<length es. get_prop (map ChatMessage_json h ! n) ''role'' = get_prop (es ! n) ''role''
                   \<and> get_prop (map ChatMessage_json h ! n) ''content'' = get_prop (es ! n) ''content''"
      using nth h(2) by (simp add: get_prop_ChatMessage_json)
    ultimately show ?thesis by blast
  qed
  show "safeParse chatRequestSchema (call_body (upstream_call url parsed)) = Inr parsed"
    unfolding body by (rule chatRequestSchema_round_trip) (rule p(4))
next
  fix st st' r
  assume a: "sendMessage_start st = (st', Some r)
            \<and> (\<forall>m\<in>set (messages st). role m \<in> {''user'', ''assistant'', ''system''} \<and> content m \<noteq> [])"
  then have s: "sendMessage_start st = (st', Some r)" by simp
  note h = sendMessage_start_request(2) [OF s]
  show "history r = Some (filter (\<lambda>m. role m \<noteq> ''system'') (messages st))" by (rule h)
  show "safeParse chatRequestSchema (ChatRequest_json r) = Inr r"
  proof (rule chatRequestSchema_round_trip)
    fix h' m assume "history r = Some h'" "m \<in> set h'"
    with h have "m \<in> set (messages st)" by auto
    with a show "role m \<in> {''user'', ''assistant'', ''system''} \<and> content m \<noteq> []" by blast
  qed
qed

theorem C8_request_preserved_witness:
  "snd (POST example_runtime (Some ''http://upstream'')
          (upstream_rejects \<lparr>err_name = ''TypeError'', err_message = ''fetch failed''\<rparr>)
          \<lparr>req_json = Inr (JObject
             [(''message'', JString ''and Rome?''),
              (''history'', JArray [JObject [(''role'', JString ''user''), (''content'', JString ''Paris?'')],
                                    JObject [(''role'', JString ''assistant''), (''content'', JString ''Yes'')]])])\<rparr>)
     = [upstream_call ''http://upstream''
          \<lparr>message = ''and Rome?'',
           history = Some [\<lparr>role = ''user'', content = ''Paris?''\<rparr>,
                           \<lparr>role = ''assistant'', content = ''Yes''\<rparr>]\<rparr>]
   \<and> get_prop (call_body (upstream_call ''http://upstream''
          \<lparr>message = ''and Rome?'',
           history = Some [\<lparr>role = ''user'', content = ''Paris?''\<rparr>,
                           \<lparr>role = ''assistant'', content = ''Yes''\<rparr>]\<rparr>)) ''message''
     = Some (JString ''and Rome?'')
   \<and> (\<exists>bs. get_prop (call_body (upstream_call ''http://upstream''
          \<lparr>message = ''and Rome?'',
           history = Some [\<lparr>role = ''user'', content = ''Paris?''\<rparr>,
                           \<lparr>role = ''assistant'', content = ''Yes''\<rparr>]\<rparr>)) ''history''
          = Some (JArray bs)
        \<and> length bs = 2
        \<and> get_prop (bs ! 0) ''role'' = Some (JString ''user'')
        \<and> get_prop (bs ! 0) ''content'' = Some (JString ''Paris?'')
        \<and> get_prop (bs ! 1) ''role'' = Some (JString ''assistant'')
        \<and> get_prop (bs ! 1) ''content'' = Some (JString ''Yes''))
   \<and> safeParse chatRequestSchema (call_body (upstream_call ''http://upstream''
          \<lparr>message = ''and Rome?'',
           history = Some [\<lparr>role = ''user'', content = ''Paris?''\<rparr>,
                           \<lparr>role = ''assistant'', content = ''Yes''\<rparr>]\<rparr>))
     = Inr \<lparr>message = ''and Rome?'',
           history = Some [\<lparr>role = ''user'', content = ''Paris?''\<rparr>,
                           \<lparr>role = ''assistant'', content = ''Yes''\<rparr>]\<rparr>
   \<and> get_prop (call_body (upstream_call ''http://upstream'' \<lparr>message = ''hi'', history = None\<rparr>))
        ''history'' = None
   \<and> safeParse chatRequestSchema (ChatRequest_json
          \<lparr>message = ''and Rome?'',
           history = Some [\<lparr>role = ''user'', content = ''Paris?''\<rparr>,
                           \<lparr>role = ''assistant'', content = ''Yes''\<rparr>]\<rparr>)
     = Inr \<lparr>message = ''and Rome?'',
           history = Some [\<lparr>role = ''user'', content = ''Paris?''\<rparr>,
                           \<lparr>role = ''assistant'', content = ''Yes''\<rparr>]\<rparr>"
proof -
  let ?es = "[JObject [(''role'', JString ''user''), (''content'', JString ''Paris?'')],
              JObject [(''role'', JString ''assistant''), (''content'', JString ''Yes'')]]"
  let ?D = "JObject [(''message'', JString ''and Rome?''), (''history'', JArray ?es)]"
  let ?h = "[\<lparr>role = ''user'', content = ''Paris?''\<rparr>, \<lparr>role = ''assistant'', content = ''Yes''\<rparr>]"
  let ?P = "\<lparr>message = ''and Rome?'', history = Some ?h\<rparr>"
  let ?down = "upstream_rejects \<lparr>err_name = ''TypeError'', err_message = ''fetch failed''\<rparr>"
  let ?st = "\<lparr>messages = systemMessage # ?h, input = ''  and Rome? '', loading = False, error = None\<rparr>"
  let ?st' = "\<lparr>messages = systemMessage # ?h @ [\<lparr>role = ''user'', content = ''and Rome?''\<rparr>],
               input = [], loading = True, error = None\<rparr>"
  have parsed: "safeParse chatRequestSchema ?D = Inr ?P"
    by (simp add: zod_defs)
  note t = C8_request_preserved [where rt = example_runtime and fetch = ?down
      and req = "\<lparr>req_json = Inr ?D\<rparr>", OF _ _ parsed]
  have u: "''http://upstream'' \<noteq> []" "req_json \<lparr>req_json = Inr ?D\<rparr> = Inr ?D"
    by simp_all
  note t1 = t [OF u]
  have 1: "snd (POST example_runtime (Some ''http://upstream'') ?down \<lparr>req_json = Inr ?D\<rparr>)
             = [upstream_call ''http://upstream'' ?P]"
    using t1 by (rule conjunct1)
  have 2: "get_prop (call_body (upstream_call ''http://upstream'' ?P)) ''message''
             = Some (JString ''and Rome?'')"
    using t1 [THEN conjunct2, THEN conjunct1] by simp
  have "get_prop ?D ''history'' = Some (JArray ?es)" by simp
  from t1 [THEN conjunct2, THEN conjunct2, THEN conjunct2, THEN conjunct1, rule_format, OF this]
  obtain bs where bs: "get_prop (call_body (upstream_call ''http://upstream'' ?P)) ''history''
                         = Some (JArray bs)"
    "length bs = length ?es"
    "\<forall>n<length ?es. get_prop (bs ! n) ''role'' = get_prop (?es ! n) ''role''
         \<and> get_prop (bs ! n) ''content'' = get_prop (?es ! n) ''content''"
    by blast
  from bs(3) have "get_prop (bs ! 0) ''role'' = get_prop (?es ! 0) ''role''
         \<and> get_prop (bs ! 0) ''content'' = get_prop (?es ! 0) ''content''"
    "get_prop (bs ! 1) ''role'' = get_prop (?es ! 1) ''role''
         \<and> get_prop (bs ! 1) ''content'' = get_prop (?es ! 1) ''content''"
    by simp_all
  with bs(1,2) have 3: "\<exists>bs. get_prop (call_body (upstream_call ''http://upstream'' ?P)) ''history''
          = Some (JArray bs)
        \<and> length bs = 2
        \<and> get_prop (bs ! 0) ''role'' = Some (JString ''user'')
        \<and> get_prop (bs ! 0) ''content'' = Some (JString ''Paris?'')
        \<and> get_prop (bs ! 1) ''role'' = Some (JString ''assistant'')
        \<and> get_prop (bs ! 1) ''content'' = Some (JString ''Yes'')"
    by simp
  have 4: "safeParse chatRequestSchema (call_body (upstream_call ''http://upstream'' ?P)) = Inr ?P"
    using t1 [THEN conjunct2, THEN conjunct2, THEN conjunct2, THEN conjunct2, THEN conjunct1] .
  have r: "req_json \<lparr>req_json = Inr (JObject [(''message'', JString ''hi'')])\<rparr>
             = Inr (JObject [(''message'', JString ''hi'')])"
    by simp
  have "get_prop (JObject [(''message'', JString ''hi'')]) ''history'' = None" by simp
  then have 5: "get_prop (call_body (upstream_call ''http://upstream''
                  \<lparr>message = ''hi'', history = None\<rparr>)) ''history'' = None"
    by (rule C8_request_preserved [where rt = example_runtime and fetch = ?down,
      OF u(1) r hi_request_parsed, THEN conjunct2, THEN conjunct2, THEN conjunct1, rule_format])
  have s: "sendMessage_start ?st = (?st', Some ?P)"
    by (simp add: sendMessage_start_def Let_def trim_defs systemMessage_def)
  have v: "\<forall>m\<in>set (messages ?st). role m \<in> {''user'', ''assistant'', ''system''} \<and> content m \<noteq> []"
    by (simp add: systemMessage_def)
  have 6: "safeParse chatRequestSchema (ChatRequest_json ?P) = Inr ?P"
    using t1 [THEN conjunct2, THEN conjunct2, THEN conjunct2, THEN conjunct2, THEN conjunct2,
        rule_format, OF conjI, OF s v]
    by simp
  from 1 2 3 4 5 6 show ?thesis by (intro conjI)
qed

section \<open>C9: the conversation state of the chat panel\<close>

text \<open>
  C9: the conversation is created on mount as the single system message, and after every
  sequence of events (typing, submitting, the settling of a request, reset) it still
  begins with that system message. Each event changes it in exactly one way: a submit
  with a non-blank input and no request in flight appends the user message holding the
  trimmed input, and any other submit leaves it as it is; the settling of the request in
  flight with a reply appends the assistant message holding the reply, and with a failure
  leaves it as it is; typing leaves it as it is; reset gives the single system message
  again. A submit that appends also posts a request, whose \<open>message\<close> is the trimmed
  input and whose \<open>history\<close> is the conversation before the submit, in order, without
  the messages of role system.
\<close>

theorem C9_conversation_state:
  "messages mount = [systemMessage]
   \<and> role systemMessage = ''system''
   \<and> (\<exists>rest. messages (ui_run evs) = systemMessage # rest)
   \<and> ui_run (evs @ [ev]) = ui_step (ui_run evs) ev
   \<and> messages (ui_step st (Typed s)) = messages st
   \<and> messages (ui_step st Submitted) =
        (if trim (input st) = [] \<or> loading st then messages st
         else messages st @ [\<lparr>role = ''user'', content = trim (input st)\<rparr>])
   \<and> messages (ui_step st (Settled (Replied r))) =
        (if loading st then messages st @ [\<lparr>role = ''assistant'', content = r\<rparr>]
         else messages st)
   \<and> messages (ui_step st (Settled (Failed e))) = messages st
   \<and> messages (ui_step st Reset) = [systemMessage]
   \<and> snd (sendMessage_start st) =
        (if trim (input st) = [] \<or> loading st then None
         else Some \<lparr>message = trim (input st),
                    history = Some (filter (\<lambda>m. role m \<noteq> ''system'') (messages st))\<rparr>)
   \<and> (\<forall>st' r h. sendMessage_start st = (st', Some r) \<and> history r = Some h \<longrightarrow>
         h = filter (\<lambda>m. role m \<noteq> ''system'') (messages st)
         \<and> (\<forall>m\<in>set h. role m \<noteq> ''system''))"
proof (intro conjI allI impI)
  show "messages mount = [systemMessage]" by (simp add: mount_def)
  show "role systemMessage = ''system''" by (simp add: systemMessage_def)
  show "\<exists>rest. messages (ui_run evs) = systemMessage # rest"
    unfolding ui_run_def by (rule foldl_ui_step_keeps_system) (simp add: mount_def)
  show "ui_run (evs @ [ev]) = ui_step (ui_run evs) ev" by (simp add: ui_run_def)
  show "messages (ui_step st (Typed s)) = messages st" by simp
  show "messages (ui_step st Submitted) =
        (if trim (input st) = [] \<or> loading st then messages st
         else messages st @ [\<lparr>role = ''user'', content = trim (input st)\<rparr>])"
    by (simp add: sendMessage_start_def Let_def)
  show "messages (ui_step st (Settled (Replied r))) =
        (if loading st then messages st @ [\<lparr>role = ''assistant'', content = r\<rparr>]
         else messages st)"
    by (simp add: sendMessage_finish_def)
  show "messages (ui_step st (Settled (Failed e))) = messages st"
    by (simp add: sendMessage_finish_def)
  show "messages (ui_step st Reset) = [systemMessage]" by (simp add: resetChat_def)
  show "snd (sendMessage_start st) =
        (if trim (input st) = [] \<or> loading st then None
         else Some \<lparr>message = trim (input st),
                    history = Some (filter (\<lambda>m. role m \<noteq> ''system'') (messages st))\<rparr>)"
    by (simp add: sendMessage_start_def Let_def)
next
  fix st' r h
  assume a: "sendMessage_start st = (st', Some r) \<and> history r = Some h"
  then show "h = filter (\<lambda>m. role m \<noteq> ''system'') (messages st)"
    using sendMessage_start_request(2) [of st st' r] by simp
  then show "\<forall>m\<in>set h. role m \<noteq> ''system''" by simp
qed

theorem C9_conversation_state_witness:
  "messages (ui_run [Typed ''Paris?'', Submitted])
     = [systemMessage, \<lparr>role = ''user'', content = ''Paris?''\<rparr>]
   \<and> messages (ui_run [Typed ''Paris?'', Submitted, Settled (Replied ''Yes'')])
     = [systemMessage, \<lparr>role = ''user'', content = ''Paris?''\<rparr>,
        \<lparr>role = ''assistant'', content = ''Yes''\<rparr>]
   \<and> messages (ui_run [Typed ''Paris?'', Submitted, Settled (Replied ''Yes''), Reset])
     = [systemMessage]
   \<and> snd (sendMessage_start
          \<lparr>messages = [systemMessage, \<lparr>role = ''user'', content = ''Paris?''\<rparr>,
                        \<lparr>role = ''assistant'', content = ''Yes''\<rparr>],
           input = ''  and Rome? '', loading = False, error = None\<rparr>)
     = Some \<lparr>message = ''and Rome?'',
             history = Some [\<lparr>role = ''user'', content = ''Paris?''\<rparr>,
                             \<lparr>role = ''assistant'', content = ''Yes''\<rparr>]\<rparr>
   \<and> snd (sendMessage_start
          \<lparr>messages = [systemMessage], input = [CHR 0xC2, CHR 0xA0, CHR 0x0A],
           loading = False, error = None\<rparr>)
     = None
   \<and> \<not> (\<exists>m\<in>set [\<lparr>role = ''user'', content = ''Paris?''\<rparr>,
                    \<lparr>role = ''assistant'', content = ''Yes''\<rparr>]. role m = ''system'')"
proof -
  let ?u = "\<lparr>role = ''user'', content = ''Paris?''\<rparr>"
  let ?a = "\<lparr>role = ''assistant'', content = ''Yes''\<rparr>"
  let ?h = "[?u, ?a]"
  let ?P = "\<lparr>message = ''and Rome?'', history = Some ?h\<rparr>"
  let ?s1 = "\<lparr>messages = [systemMessage], input = ''Paris?'', loading = False, error = None\<rparr>"
  let ?s2 = "\<lparr>messages = [systemMessage, ?u], input = [], loading = True, error = None\<rparr>"
  let ?s3 = "\<lparr>messages = [systemMessage, ?u, ?a], input = [], loading = False, error = None\<rparr>"
  let ?st = "\<lparr>messages = [systemMessage, ?u, ?a], input = ''  and Rome? '', loading = False,
              error = None\<rparr>"
  let ?nb = "\<lparr>messages = [systemMessage], input = [CHR 0xC2, CHR 0xA0, CHR 0x0A],
              loading = False, error = None\<rparr>"
  note t = C9_conversation_state
  have r1: "ui_run [Typed ''Paris?''] = ?s1"
    by (simp add: ui_run_def mount_def)
  have tp: "trim ''Paris?'' = ''Paris?''" by (simp add: trim_defs)
  have r2: "ui_run [Typed ''Paris?'', Submitted] = ?s2"
    by (simp add: ui_run_def mount_def sendMessage_start_def Let_def tp)
  have r3: "ui_run [Typed ''Paris?'', Submitted, Settled (Replied ''Yes'')] = ?s3"
    by (simp add: ui_run_def mount_def sendMessage_start_def Let_def tp sendMessage_finish_def)
  have 1: "messages (ui_run [Typed ''Paris?'', Submitted]) = [systemMessage, ?u]"
    using t [where evs = "[Typed ''Paris?'']" and ev = Submitted and st = ?s1,
        THEN conjunct2, THEN conjunct2, THEN conjunct2]
    by (simp add: r1 tp)
  have 2: "messages (ui_run [Typed ''Paris?'', Submitted, Settled (Replied ''Yes'')])
             = [systemMessage, ?u, ?a]"
    using t [where evs = "[Typed ''Paris?'', Submitted]" and ev = "Settled (Replied ''Yes'')"
        and st = ?s2 and r = "''Yes''", THEN conjunct2, THEN conjunct2, THEN conjunct2]
    by (simp add: r2)
  have 3: "messages (ui_run [Typed ''Paris?'', Submitted, Settled (Replied ''Yes''), Reset])
             = [systemMessage]"
    using t [where evs = "[Typed ''Paris?'', Submitted, Settled (Replied ''Yes'')]"
        and ev = Reset and st = ?s3, THEN conjunct2, THEN conjunct2, THEN conjunct2]
    by (simp add: r3)
  have tr: "trim ''  and Rome? '' = ''and Rome?''" by (simp add: trim_defs)
  have tn: "trim [CHR 0xC2, CHR 0xA0, CHR 0x0A] = []" by (simp add: trim_defs)
  have 4: "snd (sendMessage_start ?st) = Some ?P"
    using t [where st = ?st, THEN conjunct2, THEN conjunct2, THEN conjunct2, THEN conjunct2,
        THEN conjunct2, THEN conjunct2, THEN conjunct2, THEN conjunct2, THEN conjunct2,
        THEN conjunct1] by (simp add: tr systemMessage_def)
  have 5: "snd (sendMessage_start ?nb) = None"
    using t [where st = ?nb, THEN conjunct2, THEN conjunct2, THEN conjunct2, THEN conjunct2,
        THEN conjunct2, THEN conjunct2, THEN conjunct2, THEN conjunct2, THEN conjunct2,
        THEN conjunct1] by (simp add: tn)
  obtain st' where s: "sendMessage_start ?st = (st', Some ?P) \<and> history ?P = Some ?h"
    using 4 by (cases "sendMessage_start ?st") simp
  have "\<forall>m\<in>set ?h. role m \<noteq> ''system''"
    using t [where st = ?st, THEN conjunct2, THEN conjunct2, THEN conjunct2, THEN conjunct2,
        THEN conjunct2, THEN conjunct2, THEN conjunct2, THEN conjunct2, THEN conjunct2,
        THEN conjunct2, rule_format, OF s] by blast
  then have 6: "\<not> (\<exists>m\<in>set ?h. role m = ''system'')" by blast
  from 1 2 3 4 5 6 show ?thesis by (intro conjI)
qed

section \<open>C10: unknown fields do not pass the relay\<close>

text \<open>
  C10: whatever other fields the inbound request object or its history entries carry,
  the body of the upstream call is an object with no key besides \<open>message\<close> and
  \<open>history\<close>, and every entry of its \<open>history\<close> is exactly
  \<^verbatim>\<open>{ role, content }\<close>. Whatever other fields an upstream 2xx JSON object carries,
  a 200 answer of the relay to it is exactly \<^verbatim>\<open>{ reply, handled }\<close>, with the
  upstream's two values.
\<close>

theorem C10_unknown_fields_stripped:
  assumes "url \<noteq> []" and "req_json req = Inr data"
    and "safeParse chatRequestSchema data = Inr parsed"
  shows "snd (POST rt (Some url) fetch req) = [upstream_call url parsed]
     \<and> (\<exists>fields. call_body (upstream_call url parsed) = JObject fields
          \<and> set (map fst fields) \<subseteq> {''message'', ''history''}
          \<and> (\<forall>bs. map_of fields ''history'' = Some (JArray bs) \<longrightarrow>
                (\<forall>b\<in>set bs. \<exists>r c. b = JObject [(''role'', JString r), (''content'', JString c)])))
     \<and> (\<forall>res resp. fetch (upstream_call url parsed) = Resolved res \<and> res_ok res
            \<and> str_includes (case res_content_type res of None \<Rightarrow> [] | Some s \<Rightarrow> s) ''application/json''
            \<and> fst (POST rt (Some url) fetch req) = Inr resp \<and> status resp = 200 \<longrightarrow>
          (\<exists>r h. body resp = JsonBody (JObject [(''reply'', JString r), (''handled'', JBool h)])
             \<and> (\<exists>kvs. res_json res = Some (JObject kvs)
                   \<and> map_of kvs ''reply'' = Some (JString r)
                   \<and> map_of kvs ''handled'' = Some (JBool h))))"
proof (intro conjI allI impI)
  show "snd (POST rt (Some url) fetch req) = [upstream_call url parsed]"
    using assms by (simp add: POST_calls POST_try_calls)
  have body: "call_body (upstream_call url parsed) = ChatRequest_json parsed"
    by (simp add: upstream_call_def)
  let ?fields = "(''message'', JString (message parsed)) #
              (case history parsed of None \<Rightarrow> []
               | Some h \<Rightarrow> [(''history'', JArray (map ChatMessage_json h))])"
  have 1: "call_body (upstream_call url parsed) = JObject ?fields"
    by (simp add: body ChatRequest_json_unfold)
  have 2: "set (map fst ?fields) \<subseteq> {''message'', ''history''}"
    by (cases "history parsed") simp_all
  have 3: "\<forall>bs. map_of ?fields ''history'' = Some (JArray bs) \<longrightarrow>
                (\<forall>b\<in>set bs. \<exists>r c. b = JObject [(''role'', JString r), (''content'', JString c)])"
    by (cases "history parsed") (auto simp: ChatMessage_json_unfold)
  from 1 2 3
  show "\<exists>fields. call_body (upstream_call url parsed) = JObject fields
          \<and> set (map fst fields) \<subseteq> {''message'', ''history''}
          \<and> (\<forall>bs. map_of fields ''history'' = Some (JArray bs) \<longrightarrow>
                (\<forall>b\<in>set bs. \<exists>r c. b = JObject [(''role'', JString r), (''content'', JString c)]))"
    by blast
next
  fix res :: upstream_response and resp :: response
  let ?payload = "case res_json res of None \<Rightarrow> JNull | Some v \<Rightarrow> v"
  assume a: "fetch (upstream_call url parsed) = Resolved res \<and> res_ok res
            \<and> str_includes (case res_content_type res of None \<Rightarrow> [] | Some s \<Rightarrow> s) ''application/json''
            \<and> fst (POST rt (Some url) fetch req) = Inr resp \<and> status resp = 200"
  then have f: "fetch (upstream_call url parsed) = Resolved res" and ok: "res_ok res"
    and ct: "str_includes (case res_content_type res of None \<Rightarrow> [] | Some s \<Rightarrow> s) ''application/json''"
    and resp: "fst (POST rt (Some url) fetch req) = Inr resp" "status resp = 200"
    by simp_all
  note post = POST_resolved [where fetch = fetch and rt = rt, OF assms f]
  show "\<exists>r h. body resp = JsonBody (JObject [(''reply'', JString r), (''handled'', JBool h)])
             \<and> (\<exists>kvs. res_json res = Some (JObject kvs)
                   \<and> map_of kvs ''reply'' = Some (JString r)
                   \<and> map_of kvs ''handled'' = Some (JBool h))"
  proof (cases "safeParse chatResponseSchema ?payload")
    case (Inl iss)
    with ok ct have
      "POST_respond rt res = Inl \<lparr>err_name = ''ZodError'', err_message = zod_error_message rt iss\<rparr>"
      by (rule POST_respond_malformed)
    with post resp(1) have "Inr resp = POST_catch rt
        \<lparr>err_name = ''ZodError'', err_message = zod_error_message rt iss\<rparr>"
      by simp
    then have "status resp = 500" by (simp add: POST_catch_unexpected)
    with resp(2) show ?thesis by simp
  next
    case (Inr x)
    from chatResponseSchema_Inr [OF this] obtain kvs where k: "?payload = JObject kvs"
      and fl: "map_of kvs ''reply'' = Some (JString (reply x))"
        "map_of kvs ''handled'' = Some (JBool (handled x))"
      by blast
    from k have j: "res_json res = Some (JObject kvs)" by (cases "res_json res") simp_all
    from ok ct Inr have "POST_respond rt res =
           Inr \<lparr>status = 200, content_type = ''application/json'',
                body = JsonBody (JObject [(''reply'', JString (reply x)),
                                          (''handled'', JBool (handled x))])\<rparr>"
      by (rule POST_respond_valid)
    with post resp(1) have "body resp = JsonBody (JObject [(''reply'', JString (reply x)),
                                          (''handled'', JBool (handled x))])"
      by auto
    with j fl show ?thesis by blast
  qed
qed

theorem C10_unknown_fields_stripped_witness:
  "snd (POST example_runtime (Some ''http://upstream'')
          (upstream_resolves
             \<lparr>res_status = 200, res_content_type = Some ''application/json; charset=utf-8'',
              res_json = Some (JObject [(''reply'', JString ''Paris''), (''model'', JString ''m1''),
                                        (''handled'', JBool True)]),
              res_text = Inr ''{\"reply\":\"Paris\",\"model\":\"m1\",\"handled\":true}''\<rparr>)
          \<lparr>req_json = Inr (JObject
             [(''debug'', JBool True), (''message'', JString ''hi''),
              (''history'', JArray [JObject [(''role'', JString ''user''), (''ts'', JNumber 1),
                                             (''content'', JString ''Paris?'')]])])\<rparr>)
     = [upstream_call ''http://upstream''
          \<lparr>message = ''hi'', history = Some [\<lparr>role = ''user'', content = ''Paris?''\<rparr>]\<rparr>]
   \<and> call_body (upstream_call ''http://upstream''
          \<lparr>message = ''hi'', history = Some [\<lparr>role = ''user'', content = ''Paris?''\<rparr>]\<rparr>)
     = JObject [(''message'', JString ''hi''),
                (''history'', JArray [JObject [(''role'', JString ''user''),
                                               (''content'', JString ''Paris?'')]])]
   \<and> fst (POST example_runtime (Some ''http://upstream'')
          (upstream_resolves
             \<lparr>res_status = 200, res_content_type = Some ''application/json; charset=utf-8'',
              res_json = Some (JObject [(''reply'', JString ''Paris''), (''model'', JString ''m1''),
                                        (''handled'', JBool True)]),
              res_text = Inr ''{\"reply\":\"Paris\",\"model\":\"m1\",\"handled\":true}''\<rparr>)
          \<lparr>req_json = Inr (JObject
             [(''debug'', JBool True), (''message'', JString ''hi''),
              (''history'', JArray [JObject [(''role'', JString ''user''), (''ts'', JNumber 1),
                                             (''content'', JString ''Paris?'')]])])\<rparr>)
     = Inr \<lparr>status = 200, content_type = ''application/json'',
            body = JsonBody (JObject [(''reply'', JString ''Paris''), (''handled'', JBool True)])\<rparr>"
proof -
  let ?res = "\<lparr>res_status = 200, res_content_type = Some ''application/json; charset=utf-8'',
              res_json = Some (JObject [(''reply'', JString ''Paris''), (''model'', JString ''m1''),
                                        (''handled'', JBool True)]),
              res_text = Inr ''{\"reply\":\"Paris\",\"model\":\"m1\",\"handled\":true}''\<rparr>"
  let ?D = "JObject
             [(''debug'', JBool True), (''message'', JString ''hi''),
              (''history'', JArray [JObject [(''role'', JString ''user''), (''ts'', JNumber 1),
                                             (''content'', JString ''Paris?'')]])]"
  let ?req = "\<lparr>req_json = Inr ?D\<rparr>"
  let ?P = "\<lparr>message = ''hi'', history = Some [\<lparr>role = ''user'', content = ''Paris?''\<rparr>]\<rparr>"
  let ?call = "upstream_call ''http://upstream'' ?P"
  have parsed: "safeParse chatRequestSchema ?D = Inr ?P"
    by (simp add: zod_defs)
  have u: "''http://upstream'' \<noteq> []" "req_json ?req = Inr ?D"
    by simp_all
  note t = C10_unknown_fields_stripped [where rt = example_runtime
      and fetch = "upstream_resolves ?res", OF u parsed]
  have 1: "snd (POST example_runtime (Some ''http://upstream'') (upstream_resolves ?res) ?req) = [?call]"
    using t by (rule conjunct1)
  from t [THEN conjunct2, THEN conjunct1] obtain fields
    where fields: "call_body ?call = JObject fields"
      "set (map fst fields) \<subseteq> {''message'', ''history''}"
    by blast
  have 2: "call_body ?call = JObject [(''message'', JString ''hi''),
                (''history'', JArray [JObject [(''role'', JString ''user''),
                                               (''content'', JString ''Paris?'')]])]"
    by (simp add: upstream_call_def ChatRequest_json_unfold ChatMessage_json_unfold)
  have post: "POST example_runtime (Some ''http://upstream'') (upstream_resolves ?res) ?req
     = (Inr \<lparr>status = 200, content_type = ''application/json'',
             body = JsonBody (JObject [(''reply'', JString ''Paris''), (''handled'', JBool True)])\<rparr>,
        [?call])"
    by (simp add: POST_resolved [where fetch = "upstream_resolves ?res", OF u parsed]
        upstream_resolves_def POST_respond_def Let_def res_ok_def parse_def zod_defs
        NextResponse_json_ok ChatResponse_json_def json_object_def)
  let ?resp = "\<lparr>status = 200, content_type = ''application/json'',
             body = JsonBody (JObject [(''reply'', JString ''Paris''), (''handled'', JBool True)])\<rparr>"
  have h: "upstream_resolves ?res ?call = Resolved ?res \<and> res_ok ?res
            \<and> str_includes (case res_content_type ?res of None \<Rightarrow> [] | Some s \<Rightarrow> s) ''application/json''
            \<and> fst (POST example_runtime (Some ''http://upstream'') (upstream_resolves ?res) ?req) = Inr ?resp
            \<and> status ?resp = 200"
    by (simp add: post upstream_resolves_def res_ok_def)
  from t [THEN conjunct2, THEN conjunct2, rule_format, OF h]
  obtain r h' where "body ?resp = JsonBody (JObject [(''reply'', JString r), (''handled'', JBool h')])"
    by blast
  with post have 3: "fst (POST example_runtime (Some ''http://upstream'') (upstream_resolves ?res) ?req)
     = Inr ?resp"
    by simp
  from 1 2 3 show ?thesis by (intro conjI)
qed

end
